theory Spec2Isabelle
  imports Complex_Main "HOL-Library.AList"
begin

section \<open>JavaScript values\<close>

subsection \<open>Numbers\<close>

text \<open>
  A JavaScript number is an IEEE 754 double. A finite one is \<open>Fin m e\<close>, the number
  \<open>m * 2^e\<close>, kept in the normal form of \<open>canon\<close>: an integer has \<open>e = 0\<close>, any
  other number an odd \<open>m\<close> and \<open>e < 0\<close>. \<open>Fin 0 0\<close> is \<open>+0\<close>.
\<close>

datatype jsnum = Fin int int | NegZero | PInf | NInf | NaN

function bit_length :: "int \<Rightarrow> int" where
  "bit_length n = (if n \<le> 0 then 0 else 1 + bit_length (n div 2))"
  by pat_completeness auto
termination
  by (relation "measure nat") auto

declare bit_length.simps [simp del]

function canon :: "int \<Rightarrow> int \<Rightarrow> int \<times> int" where
  "canon m e =
     (if m = 0 then (0, 0)
      else if e < 0 \<and> even m then canon (m div 2) (e + 1)
      else if 0 < e then (m * 2 ^ nat e, 0)
      else (m, e))"
  by pat_completeness auto
termination
  by (relation "measure (\<lambda>(m, e). nat (- e))") auto

declare canon.simps [simp del]

text \<open>The integer nearest to \<open>p / q\<close> (for \<open>0 \<le> p\<close>, \<open>0 < q\<close>), a tie going to the even one.\<close>

definition nearest_of :: "int \<Rightarrow> int \<Rightarrow> int \<Rightarrow> int" where
  "nearest_of m r q =
     (if 2 * r < q then m else if q < 2 * r then m + 1 else if even m then m else m + 1)"

definition nearest :: "int \<Rightarrow> int \<Rightarrow> int" where
  "nearest p q = nearest_of (p div q) (p mod q) q"

text \<open>The integer nearest to \<open>(p / q) * 2^d\<close>.\<close>

definition scaled_nearest :: "int \<Rightarrow> int \<Rightarrow> int \<Rightarrow> int" where
  "scaled_nearest p q d =
     (if 0 \<le> d then nearest (p * 2 ^ nat d) q else nearest p (q * 2 ^ nat (- d)))"

text \<open>\<open>\<lfloor>log\<^sub>2 (p / q)\<rfloor>\<close>, from the bit lengths of \<open>p\<close> and \<open>q\<close>.\<close>

definition floor_log2_from :: "int \<Rightarrow> int \<Rightarrow> int \<Rightarrow> int" where
  "floor_log2_from p q k =
     (if (if 0 \<le> k then q * 2 ^ nat k \<le> p else q \<le> p * 2 ^ nat (- k)) then k else k - 1)"

definition floor_log2 :: "int \<Rightarrow> int \<Rightarrow> int" where
  "floor_log2 p q = floor_log2_from p q (bit_length p - bit_length q)"

text \<open>
  \<open>fl neg p q s\<close> is the double nearest to \<open>(p / q) * 2^s\<close> (for \<open>0 \<le> p\<close>, \<open>0 < q\<close>),
  negated when \<open>neg\<close>: round to nearest, ties to even, 53 significant bits, gradual
  underflow (no exponent of the last bit below \<open>-1074\<close>), overflow to an infinity.
\<close>

definition fl_pack :: "bool \<Rightarrow> int \<Rightarrow> int \<Rightarrow> jsnum" where
  "fl_pack neg u m =
     (if m = 0 then (if neg then NegZero else Fin 0 0)
      else if 971 < u \<or> (u = 971 \<and> 9007199254740992 \<le> m) then (if neg then NInf else PInf)
      else (case canon (if neg then - m else m) u of (m', e') \<Rightarrow> Fin m' e'))"

definition fl_at :: "bool \<Rightarrow> int \<Rightarrow> int \<Rightarrow> int \<Rightarrow> int \<Rightarrow> jsnum" where
  "fl_at neg p q s u = fl_pack neg u (scaled_nearest p q (s - u))"

definition fl :: "bool \<Rightarrow> int \<Rightarrow> int \<Rightarrow> int \<Rightarrow> jsnum" where
  "fl neg p q s =
     (if p = 0 then (if neg then NegZero else Fin 0 0)
      else fl_at neg p q s (max (floor_log2 p q + s - 52) (- 1074)))"

fun is_neg :: "jsnum \<Rightarrow> bool" where
  "is_neg (Fin m e) = (m < 0)"
| "is_neg NegZero = True"
| "is_neg NInf = True"
| "is_neg PInf = False"
| "is_neg NaN = False"

fun is_zero :: "jsnum \<Rightarrow> bool" where
  "is_zero (Fin m e) = (m = 0)"
| "is_zero NegZero = True"
| "is_zero _ = False"

fun is_inf :: "jsnum \<Rightarrow> bool" where
  "is_inf PInf = True"
| "is_inf NInf = True"
| "is_inf _ = False"

fun mantissa :: "jsnum \<Rightarrow> int" where
  "mantissa (Fin m e) = \<bar>m\<bar>"
| "mantissa _ = 0"

fun exponent :: "jsnum \<Rightarrow> int" where
  "exponent (Fin m e) = e"
| "exponent _ = 0"

definition signed_inf :: "bool \<Rightarrow> jsnum" where
  "signed_inf neg = (if neg then NInf else PInf)"

definition signed_zero :: "bool \<Rightarrow> jsnum" where
  "signed_zero neg = (if neg then NegZero else Fin 0 0)"

text \<open>The operators \<open>/\<close> and \<open>*\<close> on doubles.\<close>

definition js_div :: "jsnum \<Rightarrow> jsnum \<Rightarrow> jsnum" where
  "js_div x y =
     (if x = NaN \<or> y = NaN then NaN
      else if is_inf x then (if is_inf y then NaN else signed_inf (is_neg x \<noteq> is_neg y))
      else if is_inf y then signed_zero (is_neg x \<noteq> is_neg y)
      else if is_zero y then (if is_zero x then NaN else signed_inf (is_neg x \<noteq> is_neg y))
      else fl (is_neg x \<noteq> is_neg y) (mantissa x) (mantissa y) (exponent x - exponent y))"

definition js_mul :: "jsnum \<Rightarrow> jsnum \<Rightarrow> jsnum" where
  "js_mul x y =
     (if x = NaN \<or> y = NaN then NaN
      else if is_inf x \<or> is_inf y
        then (if is_zero x \<or> is_zero y then NaN else signed_inf (is_neg x \<noteq> is_neg y))
      else fl (is_neg x \<noteq> is_neg y) (mantissa x * mantissa y) 1 (exponent x + exponent y))"

text \<open>\<open>Math.round\<close>: the nearest integer, a tie going towards \<open>+\<infinity>\<close>.\<close>

definition round_pack :: "int \<Rightarrow> int \<Rightarrow> jsnum" where
  "round_pack m r = (if r = 0 \<and> m < 0 then NegZero else Fin r 0)"

fun Math_round :: "jsnum \<Rightarrow> jsnum" where
  "Math_round (Fin m e) =
     round_pack m (if 0 \<le> e then m * 2 ^ nat e else (m + 2 ^ nat (- e - 1)) div 2 ^ nat (- e))"
| "Math_round x = x"

text \<open>
  \<open>Math.ceil(s / c)\<close> for a size \<open>s\<close> below \<open>2^53\<close> and the chunk size \<open>c = 2^14\<close>: the
  quotient of a division by a power of two is exact, so this is the ceiling of the
  exact quotient.
\<close>

definition Math_ceil_div :: "nat \<Rightarrow> nat \<Rightarrow> nat" where
  "Math_ceil_div s c = (s + c - 1) div c"

lemmas num_eval = fl_def fl_at_def fl_pack_def floor_log2_def floor_log2_from_def
  scaled_nearest_def nearest_def nearest_of_def js_div_def js_mul_def round_pack_def
  signed_inf_def signed_zero_def bit_length.simps canon.simps

subsection \<open>Values\<close>

text \<open>
  The values \<open>JSON.parse\<close> can return, and \<open>undefined\<close>. A string is kept as the list
  of the bytes of its UTF-8 encoding, so a byte buffer and the string that
  \<open>toString()\<close> decodes it to are the same list. An object is the list of its own
  properties in insertion order.
\<close>

datatype jsval =
    JUndefined
  | JNull
  | JBool bool
  | JNum jsnum
  | JStr string
  | JArr "jsval list"
  | JObj "(string \<times> jsval) list"

type_synonym bytes = string

fun truthy :: "jsval \<Rightarrow> bool" where
  "truthy JUndefined = False"
| "truthy JNull = False"
| "truthy (JBool b) = b"
| "truthy (JNum n) = (\<not> is_zero n \<and> n \<noteq> NaN)"
| "truthy (JStr s) = (s \<noteq> [])"
| "truthy (JArr _) = True"
| "truthy (JObj _) = True"

datatype error =
    SyntaxError
  | TypeError
  | PeerNotConnected
  | PeerNotInitialized
  | SendFailed
  | OnlyHostCanCreateOffers
  | OnlyHostCanProcessAnswers
  | OnlyHostCanSendFiles
  | InvalidAnswerData
  | PeerNotFoundForSubscriber
  | SignalFailed
  | HostCannotCreateAnswers
  | MissingSubscriberId

text \<open>
  Reading a property \<open>v.k\<close>, for the names the managers read (\<open>type\<close>, \<open>data\<close>,
  \<open>chunks\<close>, \<open>name\<close>, \<open>fileId\<close>, ...), none of which is defined on a prototype: it
  throws on \<open>null\<close> and \<open>undefined\<close> and is \<open>undefined\<close> where the value has no
  such property of its own.
\<close>

fun get_prop :: "jsval \<Rightarrow> string \<Rightarrow> error + jsval" where
  "get_prop JUndefined k = Inl TypeError"
| "get_prop JNull k = Inl TypeError"
| "get_prop (JObj ps) k = Inr (case map_of ps k of None \<Rightarrow> JUndefined | Some v \<Rightarrow> v)"
| "get_prop _ k = Inr JUndefined"

text \<open>A property of a value already known to be neither \<open>null\<close> nor \<open>undefined\<close>.\<close>

definition field :: "jsval \<Rightarrow> string \<Rightarrow> jsval" where
  "field v k = (case get_prop v k of Inl _ \<Rightarrow> JUndefined | Inr x \<Rightarrow> x)"

text \<open>\<open>n === v\<close> and \<open>n !== v\<close> for a non-negative integer \<open>n\<close>: no coercion.\<close>

fun strict_eq_nat :: "nat \<Rightarrow> jsval \<Rightarrow> bool" where
  "strict_eq_nat n (JNum (Fin m e)) = (e = 0 \<and> m = int n)"
| "strict_eq_nat n (JNum NegZero) = (n = 0)"
| "strict_eq_nat n _ = False"

text \<open>
  \<open>ToNumber\<close>, where it needs no parsing of strings: the conversion of a string, and
  of an array (which goes through its string), is outside the model, \<open>None\<close>.
\<close>

fun ToNumber :: "jsval \<Rightarrow> jsnum option" where
  "ToNumber JUndefined = Some NaN"
| "ToNumber JNull = Some (Fin 0 0)"
| "ToNumber (JBool b) = Some (Fin (if b then 1 else 0) 0)"
| "ToNumber (JNum n) = Some n"
| "ToNumber (JStr s) = None"
| "ToNumber (JArr xs) = None"
| "ToNumber (JObj ps) = Some NaN"

text \<open>\<open>Math.round((n / total) * 100)\<close>.\<close>

definition percentage :: "nat \<Rightarrow> jsval \<Rightarrow> jsnum option" where
  "percentage n tot =
     map_option (\<lambda>t. Math_round (js_mul (js_div (Fin (int n) 0) t) (Fin 100 0))) (ToNumber tot)"

text \<open>\<open>n < v\<close> for a non-negative integer \<open>n\<close>.\<close>

fun num_less :: "int \<Rightarrow> jsnum \<Rightarrow> bool" where
  "num_less n (Fin m e) = (if 0 \<le> e then n < m * 2 ^ nat e else n * 2 ^ nat (- e) < m)"
| "num_less n NegZero = (n < 0)"
| "num_less n PInf = True"
| "num_less n NInf = False"
| "num_less n NaN = False"

definition js_less_nat :: "nat \<Rightarrow> jsval \<Rightarrow> bool option" where
  "js_less_nat n v = map_option (num_less (int n)) (ToNumber v)"

section \<open>JSON\<close>

subsection \<open>\<open>JSON.stringify\<close> of the literals the managers send\<close>

text \<open>
  The managers stringify object literals whose leaves are strings, non-negative
  integers (sizes, counts, indices, timestamps: below \<open>2^53\<close>, printed in plain
  decimal) and \<open>undefined\<close> (such a member is left out).
\<close>

datatype jlit = LStr string | LNat nat | LUndefined | LObj "(string \<times> jlit) list"

definition hex_digit :: "nat \<Rightarrow> char" where
  "hex_digit d = ''0123456789abcdef'' ! d"

definition quote_char :: "char \<Rightarrow> string" where
  "quote_char c =
     (if c = CHR 0x22 then [CHR 0x5C, CHR 0x22]
      else if c = CHR 0x5C then [CHR 0x5C, CHR 0x5C]
      else if c = CHR 0x08 then [CHR 0x5C, CHR ''b'']
      else if c = CHR 0x0C then [CHR 0x5C, CHR ''f'']
      else if c = CHR 0x0A then [CHR 0x5C, CHR ''n'']
      else if c = CHR 0x0D then [CHR 0x5C, CHR ''r'']
      else if c = CHR 0x09 then [CHR 0x5C, CHR ''t'']
      else if (of_char c :: nat) < 32
        then [CHR 0x5C, CHR ''u'', CHR ''0'', CHR ''0'',
              hex_digit (of_char c div 16), hex_digit (of_char c mod 16)]
      else [c])"

definition quote :: "string \<Rightarrow> string" where
  "quote s = [CHR 0x22] @ concat (map quote_char s) @ [CHR 0x22]"

definition digit_char :: "nat \<Rightarrow> char" where
  "digit_char d = ''0123456789'' ! d"

fun digits :: "nat \<Rightarrow> string" where
  "digits n = (if n < 10 then [digit_char n] else digits (n div 10) @ [digit_char (n mod 10)])"

declare digits.simps [simp del]

fun stringify :: "jlit \<Rightarrow> string"
  and members :: "bool \<Rightarrow> (string \<times> jlit) list \<Rightarrow> string" where
  "stringify (LStr s) = quote s"
| "stringify (LNat n) = digits n"
| "stringify LUndefined = []"
| "stringify (LObj ms) = ''{'' @ members True ms @ ''}''"
| "members first [] = []"
| "members first ((k, v) # ms) =
     (if v = LUndefined then members first ms
      else (if first then [] else '','') @ quote k @ '':'' @ stringify v @ members False ms)"

text \<open>The value a literal denotes (what \<open>this.x = {...}\<close> stores).\<close>

fun to_jsval :: "jlit \<Rightarrow> jsval"
  and to_props :: "(string \<times> jlit) list \<Rightarrow> (string \<times> jsval) list" where
  "to_jsval (LStr s) = JStr s"
| "to_jsval (LNat n) = JNum (Fin (int n) 0)"
| "to_jsval LUndefined = JUndefined"
| "to_jsval (LObj ms) = JObj (to_props ms)"
| "to_props [] = []"
| "to_props ((k, v) # ms) = (k, to_jsval v) # to_props ms"


subsection \<open>\<open>JSON.parse\<close>\<close>

text \<open>
  \<open>JSON.parse\<close> as a lexer followed by a pushdown recogniser that builds the value.
  \<open>None\<close> is the \<open>SyntaxError\<close> it throws.
\<close>

datatype token =
    LBrace | RBrace | LBrack | RBrack | Colon | Comma
  | TStr string | TNum jsnum | TTrue | TFalse | TNull

definition is_ws :: "char \<Rightarrow> bool" where
  "is_ws c = (c = CHR '' '' \<or> c = CHR 0x09 \<or> c = CHR 0x0A \<or> c = CHR 0x0D)"

definition is_digit :: "char \<Rightarrow> bool" where
  "is_digit c = (c \<in> set ''0123456789'')"

definition digit_val :: "char \<Rightarrow> nat" where
  "digit_val c = of_char c - 48"

definition hex_val :: "char \<Rightarrow> nat option" where
  "hex_val c =
     (if is_digit c then Some (of_char c - 48)
      else if c \<in> set ''abcdef'' then Some (of_char c - 87)
      else if c \<in> set ''ABCDEF'' then Some (of_char c - 55)
      else None)"

definition hex4 :: "string \<Rightarrow> nat option" where
  "hex4 cs = (case map hex_val cs of
       [Some a, Some b, Some c, Some d] \<Rightarrow> Some (((a * 16 + b) * 16 + c) * 16 + d)
     | _ \<Rightarrow> None)"

text \<open>The byte with the given value, and the UTF-8 encoding of a code unit \<open>\uXXXX\<close>.\<close>

definition byte :: "nat \<Rightarrow> char" where
  "byte n = Char (odd n) (odd (n div 2)) (odd (n div 4)) (odd (n div 8))
                 (odd (n div 16)) (odd (n div 32)) (odd (n div 64)) (odd (n div 128))"

definition utf8 :: "nat \<Rightarrow> string" where
  "utf8 cp =
     (if cp < 128 then [byte cp]
      else if cp < 2048 then [byte (192 + cp div 64), byte (128 + cp mod 64)]
      else [byte (224 + cp div 4096), byte (128 + (cp div 64) mod 64), byte (128 + cp mod 64)])"

definition unescape :: "char \<Rightarrow> char option" where
  "unescape e =
     (if e = CHR 0x22 \<or> e = CHR 0x5C \<or> e = CHR ''/'' then Some e
      else if e = CHR ''b'' then Some (CHR 0x08)
      else if e = CHR ''f'' then Some (CHR 0x0C)
      else if e = CHR ''n'' then Some (CHR 0x0A)
      else if e = CHR ''r'' then Some (CHR 0x0D)
      else if e = CHR ''t'' then Some (CHR 0x09)
      else None)"

text \<open>
  A string literal after its opening quote: its content so far is \<open>acc\<close>; the result is
  the content and the input after the closing quote.
\<close>

fun lex_string :: "string \<Rightarrow> string \<Rightarrow> (string \<times> string) option" where
  "lex_string [] acc = None"
| "lex_string (c # cs) acc =
     (if c = CHR 0x22 then Some (acc, cs)
      else if c = CHR 0x5C then
        (case cs of
           [] \<Rightarrow> None
         | e # cs' \<Rightarrow>
             if e = CHR ''u'' then
               (case hex4 (take 4 cs') of
                  None \<Rightarrow> None
                | Some cp \<Rightarrow> lex_string (drop 4 cs') (acc @ utf8 cp))
             else
               (case unescape e of
                  None \<Rightarrow> None
                | Some x \<Rightarrow> lex_string cs' (acc @ [x])))
      else if (of_char c :: nat) < 32 then None
      else lex_string cs (acc @ [c]))"

text \<open>
  A number literal \<open>-? int frac? exp?\<close>; its value is the double nearest to
  \<open>mant * 10^e10\<close>.
\<close>

definition nat_of_digits :: "string \<Rightarrow> nat" where
  "nat_of_digits ds = foldl (\<lambda>a c. 10 * a + digit_val c) 0 ds"

definition decimal :: "bool \<Rightarrow> nat \<Rightarrow> int \<Rightarrow> jsnum" where
  "decimal neg mant e10 =
     (if 0 \<le> e10 then fl neg (int mant * 10 ^ nat e10) 1 0
      else fl neg (int mant) (10 ^ nat (- e10)) 0)"

definition number_value :: "bool \<Rightarrow> string \<Rightarrow> string \<Rightarrow> bool \<Rightarrow> string \<Rightarrow> jsnum" where
  "number_value neg ip fp eneg ep =
     decimal neg (nat_of_digits (ip @ fp))
       ((if eneg then - int (nat_of_digits ep) else int (nat_of_digits ep)) - int (length fp))"

definition lex_exp_digits ::
  "bool \<Rightarrow> string \<Rightarrow> string \<Rightarrow> bool \<Rightarrow> string \<Rightarrow> (jsnum \<times> string) option" where
  "lex_exp_digits neg ip fp eneg r =
     (if takeWhile is_digit r = [] then None
      else Some (number_value neg ip fp eneg (takeWhile is_digit r), dropWhile is_digit r))"

definition lex_exp_sign ::
  "bool \<Rightarrow> string \<Rightarrow> string \<Rightarrow> string \<Rightarrow> (jsnum \<times> string) option" where
  "lex_exp_sign neg ip fp r =
     (case r of
        [] \<Rightarrow> None
      | c # r' \<Rightarrow>
          if c = CHR ''+'' then lex_exp_digits neg ip fp False r'
          else if c = CHR ''-'' then lex_exp_digits neg ip fp True r'
          else lex_exp_digits neg ip fp False r)"

definition lex_exp :: "bool \<Rightarrow> string \<Rightarrow> string \<Rightarrow> string \<Rightarrow> (jsnum \<times> string) option" where
  "lex_exp neg ip fp r =
     (case r of
        [] \<Rightarrow> Some (number_value neg ip fp False [], r)
      | c # r' \<Rightarrow>
          if c = CHR ''e'' \<or> c = CHR ''E'' then lex_exp_sign neg ip fp r'
          else Some (number_value neg ip fp False [], r))"

definition lex_frac :: "bool \<Rightarrow> string \<Rightarrow> string \<Rightarrow> (jsnum \<times> string) option" where
  "lex_frac neg ip r =
     (case r of
        [] \<Rightarrow> lex_exp neg ip [] r
      | c # r' \<Rightarrow>
          if c = CHR ''.'' then
            (if takeWhile is_digit r' = [] then None
             else lex_exp neg ip (takeWhile is_digit r') (dropWhile is_digit r'))
          else lex_exp neg ip [] r)"

definition lex_int :: "bool \<Rightarrow> string \<Rightarrow> (jsnum \<times> string) option" where
  "lex_int neg cs =
     (case cs of
        [] \<Rightarrow> None
      | d # r \<Rightarrow>
          if \<not> is_digit d then None
          else if d = CHR ''0'' then lex_frac neg [d] r
          else lex_frac neg (takeWhile is_digit cs) (dropWhile is_digit cs))"

definition lex_token :: "char \<Rightarrow> string \<Rightarrow> (token \<times> string) option" where
  "lex_token c cs =
     (if c = CHR ''{'' then Some (LBrace, cs)
      else if c = CHR ''}'' then Some (RBrace, cs)
      else if c = CHR ''['' then Some (LBrack, cs)
      else if c = CHR '']'' then Some (RBrack, cs)
      else if c = CHR '':'' then Some (Colon, cs)
      else if c = CHR '','' then Some (Comma, cs)
      else if c = CHR 0x22 then map_option (\<lambda>(s, r). (TStr s, r)) (lex_string cs [])
      else if c = CHR ''-'' then map_option (\<lambda>(n, r). (TNum n, r)) (lex_int True cs)
      else if is_digit c then map_option (\<lambda>(n, r). (TNum n, r)) (lex_int False (c # cs))
      else if c = CHR ''t'' then (if take 3 cs = ''rue'' then Some (TTrue, drop 3 cs) else None)
      else if c = CHR ''f'' then (if take 4 cs = ''alse'' then Some (TFalse, drop 4 cs) else None)
      else if c = CHR ''n'' then (if take 3 cs = ''ull'' then Some (TNull, drop 3 cs) else None)
      else None)"

lemma lex_string_shorter: "lex_string cs acc = Some (s, r) \<Longrightarrow> length r \<le> length cs"
proof (induction cs acc rule: lex_string.induct)
  case (1 acc)
  then show ?case by simp
next
  case (2 c cs acc)
  show ?case
  proof (cases "c = CHR 0x22")
    case True
    with 2 show ?thesis by simp
  next
    case nq: False
    show ?thesis
    proof (cases "c = CHR 0x5C")
      case True
      then obtain e cs' where cs: "cs = e # cs'"
        using 2(4) nq by (cases cs) auto
      show ?thesis
      proof (cases "e = CHR ''u''")
        case u: True
        then obtain cp where cp: "hex4 (take 4 cs') = Some cp"
          and r: "lex_string (drop 4 cs') (acc @ utf8 cp) = Some (s, r)"
          using 2(4) nq True cs by (auto split: option.splits)
        have "length r \<le> length (drop 4 cs')"
          using 2(1) [OF nq True cs u cp r] .
        then show ?thesis using cs by simp
      next
        case nu: False
        then obtain x where x: "unescape e = Some x"
          and r: "lex_string cs' (acc @ [x]) = Some (s, r)"
          using 2(4) nq True cs by (auto split: option.splits)
        have "length r \<le> length cs'"
          using 2(2) [OF nq True cs nu x r] .
        then show ?thesis using cs by simp
      qed
    next
      case nb: False
      then have ctl: "\<not> (of_char c :: nat) < 32" and r: "lex_string cs (acc @ [c]) = Some (s, r)"
        using 2(4) nq by (auto split: if_splits)
      have "length r \<le> length cs"
        using 2(3) [OF nq nb ctl r] .
      then show ?thesis by simp
    qed
  qed
qed

lemma lex_exp_digits_shorter:
  "lex_exp_digits neg ip fp eneg r = Some (n, r') \<Longrightarrow> length r' \<le> length r"
  by (auto simp: lex_exp_digits_def length_dropWhile_le split: if_splits)

lemma lex_exp_sign_shorter:
  "lex_exp_sign neg ip fp r = Some (n, r') \<Longrightarrow> length r' \<le> length r"
  by (auto simp: lex_exp_sign_def split: list.splits if_splits
           dest!: lex_exp_digits_shorter)

lemma lex_exp_shorter:
  "lex_exp neg ip fp r = Some (n, r') \<Longrightarrow> length r' \<le> length r"
  by (auto simp: lex_exp_def split: list.splits if_splits dest!: lex_exp_sign_shorter)

lemma lex_frac_shorter:
  "lex_frac neg ip r = Some (n, r') \<Longrightarrow> length r' \<le> length r"
  using length_dropWhile_le [of is_digit "tl r"]
  by (auto simp: lex_frac_def split: list.splits if_splits dest!: lex_exp_shorter)

lemma lex_int_shorter: "lex_int neg cs = Some (n, r) \<Longrightarrow> length r < length cs"
proof (cases cs)
  case Nil
  assume "lex_int neg cs = Some (n, r)"
  with Nil show ?thesis by (simp add: lex_int_def)
next
  case (Cons d rest)
  assume a: "lex_int neg cs = Some (n, r)"
  then have d: "is_digit d"
    using Cons by (auto simp: lex_int_def split: if_splits)
  have "length r \<le> length rest"
  proof (cases "d = CHR ''0''")
    case True
    then show ?thesis
      using a Cons d by (auto simp: lex_int_def dest!: lex_frac_shorter)
  next
    case False
    then have "lex_frac neg (takeWhile is_digit cs) (dropWhile is_digit rest) = Some (n, r)"
      using a Cons d by (simp add: lex_int_def)
    then have "length r \<le> length (dropWhile is_digit rest)"
      by (rule lex_frac_shorter)
    also have "\<dots> \<le> length rest"
      by (rule length_dropWhile_le)
    finally show ?thesis .
  qed
  then show ?thesis using Cons by simp
qed

lemma lex_token_shorter: "lex_token c cs = Some (t, r) \<Longrightarrow> length r \<le> length cs"
  by (auto simp: lex_token_def less_Suc_eq_le split: if_splits
           dest!: lex_string_shorter lex_int_shorter)

function lex :: "string \<Rightarrow> token list option" where
  "lex [] = Some []"
| "lex (c # cs) =
     (if is_ws c then lex cs
      else (case lex_token c cs of
              None \<Rightarrow> None
            | Some (t, r) \<Rightarrow> (case lex r of None \<Rightarrow> None | Some ts \<Rightarrow> Some (t # ts))))"
  by pat_completeness auto
termination
  by (relation "measure length") (auto dest!: lex_token_shorter)

declare lex.simps [simp del]

datatype frame =
    FArr "jsval list"
  | FObj "(string \<times> jsval) list"
  | FKey "(string \<times> jsval) list" string

datatype mode = MValue | MFirst | MKeyFirst | MKey | MColon | MAfter | MDone jsval

fun push_value :: "jsval \<Rightarrow> frame list \<Rightarrow> (mode \<times> frame list) option" where
  "push_value v [] = Some (MDone v, [])"
| "push_value v (FArr xs # st) = Some (MAfter, FArr (xs @ [v]) # st)"
| "push_value v (FKey ms k # st) = Some (MAfter, FObj (AList.update k v ms) # st)"
| "push_value v (FObj ms # st) = None"

fun close_array :: "frame list \<Rightarrow> (mode \<times> frame list) option" where
  "close_array (FArr xs # st) = push_value (JArr xs) st"
| "close_array _ = None"

fun close_object :: "frame list \<Rightarrow> (mode \<times> frame list) option" where
  "close_object (FObj ms # st) = push_value (JObj ms) st"
| "close_object _ = None"

fun open_key :: "string \<Rightarrow> frame list \<Rightarrow> (mode \<times> frame list) option" where
  "open_key k (FObj ms # st) = Some (MColon, FKey ms k # st)"
| "open_key k _ = None"

fun start_value :: "token \<Rightarrow> frame list \<Rightarrow> (mode \<times> frame list) option" where
  "start_value LBrack st = Some (MFirst, FArr [] # st)"
| "start_value LBrace st = Some (MKeyFirst, FObj [] # st)"
| "start_value (TStr s) st = push_value (JStr s) st"
| "start_value (TNum n) st = push_value (JNum n) st"
| "start_value TTrue st = push_value (JBool True) st"
| "start_value TFalse st = push_value (JBool False) st"
| "start_value TNull st = push_value JNull st"
| "start_value _ st = None"

fun after_value :: "token \<Rightarrow> frame list \<Rightarrow> (mode \<times> frame list) option" where
  "after_value Comma (FArr xs # st) = Some (MValue, FArr xs # st)"
| "after_value Comma (FObj ms # st) = Some (MKey, FObj ms # st)"
| "after_value RBrack st = close_array st"
| "after_value RBrace st = close_object st"
| "after_value _ _ = None"

fun step :: "mode \<Rightarrow> frame list \<Rightarrow> token \<Rightarrow> (mode \<times> frame list) option" where
  "step MValue st t = start_value t st"
| "step MFirst st t = (if t = RBrack then close_array st else start_value t st)"
| "step MKeyFirst st t =
     (case t of TStr k \<Rightarrow> open_key k st | RBrace \<Rightarrow> close_object st | _ \<Rightarrow> None)"
| "step MKey st t = (case t of TStr k \<Rightarrow> open_key k st | _ \<Rightarrow> None)"
| "step MColon st t = (if t = Colon then Some (MValue, st) else None)"
| "step MAfter st t = after_value t st"
| "step (MDone v) st t = None"

fun run :: "mode \<Rightarrow> frame list \<Rightarrow> token list \<Rightarrow> jsval option" where
  "run m st [] = (case m of MDone v \<Rightarrow> Some v | _ \<Rightarrow> None)"
| "run m st (t # ts) = (case step m st t of None \<Rightarrow> None | Some (m', st') \<Rightarrow> run m' st' ts)"

definition JSON_parse :: "string \<Rightarrow> jsval option" where
  "JSON_parse s = (case lex s of None \<Rightarrow> None | Some ts \<Rightarrow> run MValue [] ts)"

lemmas json_eval = JSON_parse_def lex_token_def lex_int_def lex_frac_def lex_exp_def
  lex_exp_sign_def lex_exp_digits_def number_value_def decimal_def nat_of_digits_def
  is_ws_def is_digit_def digit_val_def hex4_def hex_val_def utf8_def byte_def unescape_def
  lex.simps

section \<open>The transport\<close>

text \<open>
  The transport (\<open>simple-peer\<close>'s \<open>Peer\<close>) is outside the repository. A manager sees of
  it the property \<open>connected\<close> and the calls \<open>send\<close>, \<open>signal\<close> and \<open>destroy\<close>; a
  \<open>peer\<close> is what those show at the time of a call: whether it is connected, whether
  \<open>send\<close> and \<open>signal\<close> would throw, and the calls made on it so far. A sent frame is a
  string or an \<open>ArrayBuffer\<close>; the remote \<open>data\<close> event delivers either as a buffer of
  bytes, which the handlers decode with \<open>toString()\<close>.
\<close>

datatype wire = Text string | Binary bytes

fun wire_bytes :: "wire \<Rightarrow> bytes" where
  "wire_bytes (Text s) = s"
| "wire_bytes (Binary b) = b"

record peer =
  connected :: bool
  send_throws :: bool
  signal_throws :: bool
  send_calls :: "wire list"
  signal_calls :: "string list"

definition new_Peer :: peer where
  "new_Peer = \<lparr>connected = False, send_throws = True, signal_throws = False,
                send_calls = [], signal_calls = []\<rparr>"

text \<open>\<open>peer.send(w)\<close>: the call is made, and it throws or not.\<close>

definition peer_send :: "peer \<Rightarrow> wire \<Rightarrow> bool \<times> peer" where
  "peer_send p w = (send_throws p, p\<lparr>send_calls := send_calls p @ [w]\<rparr>)"

definition peer_signal :: "peer \<Rightarrow> string \<Rightarrow> bool \<times> peer" where
  "peer_signal p d = (signal_throws p, p\<lparr>signal_calls := signal_calls p @ [d]\<rparr>)"

section \<open>WebRTCManager (\<open>utils/webrtc.ts\<close>)\<close>

definition CHUNK_SIZE :: nat where
  "CHUNK_SIZE = 16384"

text \<open>A browser \<open>File\<close>: \<open>file.size\<close> is the length of its content.\<close>

record File =
  fname :: string
  ftype :: string
  content :: bytes

definition fsize :: "File \<Rightarrow> nat" where
  "fsize f = length (content f)"

text \<open>\<open>file.slice(start, end)\<close> followed by \<open>arrayBuffer()\<close>.\<close>

definition slice :: "File \<Rightarrow> nat \<Rightarrow> nat \<Rightarrow> bytes" where
  "slice f start stop = take (stop - start) (drop start (content f))"

record progress =
  sent :: nat
  p_total :: jsval
  p_percentage :: "jsnum option"
  speed :: nat

text \<open>
  The callbacks a manager fires, in order. \<open>OnFileReceived name type bytes\<close> stands for
  \<open>new File([new Blob(chunks, {type})], name, {type, lastModified})\<close>: the two values
  passed as name and type, and the concatenated chunks (the time \<open>lastModified\<close> is
  left out).
\<close>

datatype callback =
    OnProgress progress
  | OnFileReceived jsval jsval bytes
  | OnConnected
  | OnDisconnected

datatype console = CLog string | CWarn string | CError string

record pair_state =
  peer :: "peer option"
  isInitiator :: bool
  fileData :: jsval
  receivedChunks :: "(nat \<times> bytes) list"
  expectedChunkIndex :: nat
  connectionTimeout :: bool
  callbacks :: "callback list"
  console :: "console list"
  destroyed :: "peer list"

definition WebRTCManager :: "bool \<Rightarrow> pair_state" where
  "WebRTCManager initiator =
     \<lparr>peer = None, isInitiator = initiator, fileData = JNull, receivedChunks = [],
      expectedChunkIndex = 0, connectionTimeout = False, callbacks = [], console = [],
      destroyed = []\<rparr>"

definition fire :: "callback \<Rightarrow> pair_state \<Rightarrow> pair_state" where
  "fire c st = st\<lparr>callbacks := callbacks st @ [c]\<rparr>"

definition say :: "console \<Rightarrow> pair_state \<Rightarrow> pair_state" where
  "say c st = st\<lparr>console := console st @ [c]\<rparr>"

definition cleanup :: "pair_state \<Rightarrow> pair_state" where
  "cleanup st = st\<lparr>connectionTimeout := False\<rparr>"

text \<open>
  \<open>createPeer\<close> constructs the transport and arms the timeout; the handlers it
  registers are the functions \<open>on_connect\<close>, \<open>handleReceivedData\<close>, \<open>on_error\<close>,
  \<open>on_close\<close> and \<open>on_timeout\<close>.
\<close>

definition createPeer :: "pair_state \<Rightarrow> pair_state" where
  "createPeer st = st\<lparr>peer := Some new_Peer, connectionTimeout := True\<rparr>"

definition on_connect :: "pair_state \<Rightarrow> pair_state" where
  "on_connect st = fire OnConnected (cleanup st)"

definition on_error :: "pair_state \<Rightarrow> pair_state" where
  "on_error st = cleanup (say (CError ''Peer error'') st)"

definition on_close :: "pair_state \<Rightarrow> pair_state" where
  "on_close st = fire OnDisconnected (cleanup st)"

definition on_timeout :: "pair_state \<Rightarrow> pair_state" where
  "on_timeout st = cleanup (say (CError ''Connection timeout'') st)"

record SignalData =
  sd_type :: string
  signal :: string
  metadata :: jsval

definition connectToPeer :: "pair_state \<Rightarrow> SignalData \<Rightarrow> error option \<times> pair_state" where
  "connectToPeer st signalData =
     (case peer st of
        None \<Rightarrow> (Some PeerNotInitialized, st)
      | Some p \<Rightarrow>
          (case peer_signal p (signal signalData) of (threw, p') \<Rightarrow>
             if threw
             then (Some SignalFailed,
                   cleanup (say (CError ''Failed to signal peer'')
                     (st\<lparr>fileData := (if truthy (metadata signalData) then metadata signalData
                                        else fileData st),
                         peer := Some p'\<rparr>)))
             else (None,
                   st\<lparr>fileData := (if truthy (metadata signalData) then metadata signalData
                                      else fileData st),
                       peer := Some p'\<rparr>)))"

subsection \<open>Sending\<close>

text \<open>\<open>this.peer.send(w)\<close> inside \<open>sendFile\<close>, where the peer is known to exist.\<close>

definition send :: "pair_state \<Rightarrow> wire \<Rightarrow> error option \<times> pair_state" where
  "send st w =
     (case peer st of
        None \<Rightarrow> (Some TypeError, st)
      | Some p \<Rightarrow>
          (case peer_send p w of (threw, p') \<Rightarrow>
             (if threw then Some SendFailed else None, st\<lparr>peer := Some p'\<rparr>)))"

definition FileData :: "File \<Rightarrow> nat \<Rightarrow> jlit" where
  "FileData f chunks =
     LObj [(''name'', LStr (fname f)), (''size'', LNat (fsize f)),
           (''type'', LStr (ftype f)), (''chunks'', LNat chunks)]"

definition fileStart :: "jlit \<Rightarrow> wire" where
  "fileStart fd = Text (stringify (LObj [(''type'', LStr ''fileStart''), (''data'', fd)]))"

definition chunkStart :: "nat \<Rightarrow> nat \<Rightarrow> nat \<Rightarrow> wire" where
  "chunkStart i n chunks =
     Text (stringify (LObj [(''type'', LStr ''chunkStart''),
       (''data'', LObj [(''index'', LNat i), (''size'', LNat n), (''total'', LNat chunks)])]))"

definition fileComplete :: wire where
  "fileComplete = Text (stringify (LObj [(''type'', LStr ''fileComplete'')]))"

definition chunk_of :: "File \<Rightarrow> nat \<Rightarrow> bytes" where
  "chunk_of f i = slice f (i * CHUNK_SIZE) (min (i * CHUNK_SIZE + CHUNK_SIZE) (fsize f))"

text \<open>
  The loop \<open>for (let i = 0; i < chunks; i++)\<close> of \<open>sendFile\<close>, from index \<open>i\<close>. The
  awaits inside it (reading the slice, the 10 ms pause) are taken as not interleaved
  with other events.
\<close>

function sendChunks :: "File \<Rightarrow> nat \<Rightarrow> nat \<Rightarrow> pair_state \<Rightarrow> error option \<times> pair_state" where
  "sendChunks f chunks i st =
     (if i < chunks then
        (case send st (chunkStart i (length (chunk_of f i)) chunks) of
           (Some e, st1) \<Rightarrow> (Some e, st1)
         | (None, st1) \<Rightarrow>
             (case send st1 (Binary (chunk_of f i)) of
                (Some e, st2) \<Rightarrow> (Some e, st2)
              | (None, st2) \<Rightarrow>
                  sendChunks f chunks (Suc i)
                    (fire (OnProgress \<lparr>sent = Suc i, p_total = JNum (Fin (int chunks) 0),
                             p_percentage = percentage (Suc i) (JNum (Fin (int chunks) 0)),
                             speed = 0\<rparr>) st2)))
      else (None, st))"
  by pat_completeness auto
termination
  by (relation "measure (\<lambda>(f, chunks, i, st). chunks - i)") auto

declare sendChunks.simps [simp del]

definition sendFile :: "pair_state \<Rightarrow> File \<Rightarrow> error option \<times> pair_state" where
  "sendFile st f =
     (case peer st of
        None \<Rightarrow> (Some PeerNotConnected, st)
      | Some p \<Rightarrow>
          if \<not> connected p then (Some PeerNotConnected, st)
          else
            (case send (st\<lparr>fileData := to_jsval (FileData f (Math_ceil_div (fsize f) CHUNK_SIZE))\<rparr>)
                       (fileStart (FileData f (Math_ceil_div (fsize f) CHUNK_SIZE))) of
               (Some e, st1) \<Rightarrow> (Some e, say (CError ''File transfer failed'') st1)
             | (None, st1) \<Rightarrow>
                 (case sendChunks f (Math_ceil_div (fsize f) CHUNK_SIZE) 0 st1 of
                    (Some e, st2) \<Rightarrow> (Some e, say (CError ''File transfer failed'') st2)
                  | (None, st2) \<Rightarrow>
                      (case send st2 fileComplete of
                         (Some e, st3) \<Rightarrow> (Some e, say (CError ''File transfer failed'') st3)
                       | (None, st3) \<Rightarrow> (None, st3)))))"

subsection \<open>Receiving\<close>

definition handleBinaryChunk :: "pair_state \<Rightarrow> bytes \<Rightarrow> pair_state" where
  "handleBinaryChunk st data =
     (if \<not> truthy (fileData st) then say (CError ''Cannot handle chunk: no file metadata'') st
      else
        fire (OnProgress
               \<lparr>sent = length (AList.update (expectedChunkIndex st) data (receivedChunks st)),
                p_total = field (fileData st) ''chunks'',
                p_percentage =
                  percentage (length (AList.update (expectedChunkIndex st) data (receivedChunks st)))
                    (field (fileData st) ''chunks''),
                speed = 0\<rparr>)
          (st\<lparr>receivedChunks := AList.update (expectedChunkIndex st) data (receivedChunks st),
              expectedChunkIndex := Suc (expectedChunkIndex st)\<rparr>))"

text \<open>
  The loop of \<open>assembleFile\<close>: the chunks at the indices \<open>i, i + 1, ..., n - 1\<close>, appended
  to \<open>acc\<close>; \<open>None\<close> when one is missing.
\<close>

function collect :: "(nat \<times> bytes) list \<Rightarrow> nat \<Rightarrow> nat \<Rightarrow> bytes list \<Rightarrow> bytes list option" where
  "collect rc n i acc =
     (if i < n then
        (case map_of rc i of
           None \<Rightarrow> None
         | Some chunk \<Rightarrow> collect rc n (Suc i) (acc @ [chunk]))
      else Some acc)"
  by pat_completeness auto
termination
  by (relation "measure (\<lambda>(rc, n, i, acc). n - i)") auto

declare collect.simps [simp del]

definition assembleFile :: "pair_state \<Rightarrow> pair_state" where
  "assembleFile st =
     (if \<not> truthy (fileData st) then say (CError ''Cannot assemble file: no metadata'') st
      else if \<not> strict_eq_nat (length (receivedChunks st)) (field (fileData st) ''chunks'')
        then say (CError ''Cannot assemble file: wrong number of chunks'') st
      else
        (case collect (receivedChunks st) (length (receivedChunks st)) 0 [] of
           None \<Rightarrow> say (CError ''Missing chunk'') st
         | Some chunks \<Rightarrow>
             fire (OnFileReceived (field (fileData st) ''name'') (field (fileData st) ''type'')
                     (concat chunks)) st))"

text \<open>
  The \<open>try\<close> block of \<open>handleReceivedData\<close>: \<open>JSON.parse\<close> throws on what is not JSON,
  and \<open>message.type\<close> throws on \<open>null\<close>; both before any change of state.
\<close>

definition dispatch :: "pair_state \<Rightarrow> jsval \<Rightarrow> jsval \<Rightarrow> pair_state" where
  "dispatch st ty message =
     (if ty = JStr ''fileStart'' then
        st\<lparr>fileData := field message ''data'', receivedChunks := [], expectedChunkIndex := 0\<rparr>
      else if ty = JStr ''chunkStart'' then st
      else if ty = JStr ''fileComplete'' then assembleFile st
      else say (CWarn ''Unknown message type'') st)"

definition try_block :: "pair_state \<Rightarrow> bytes \<Rightarrow> error + pair_state" where
  "try_block st data =
     (case JSON_parse data of
        None \<Rightarrow> Inl SyntaxError
      | Some message \<Rightarrow>
          (case get_prop message ''type'' of
             Inl e \<Rightarrow> Inl e
           | Inr ty \<Rightarrow> Inr (dispatch st ty message)))"

definition handleReceivedData :: "pair_state \<Rightarrow> bytes \<Rightarrow> error + pair_state" where
  "handleReceivedData st data =
     (case try_block st data of
        Inr st' \<Rightarrow> Inr st'
      | Inl e \<Rightarrow>
          if truthy (fileData st) then Inr (handleBinaryChunk st data)
          else Inr (say (CWarn ''Received binary data without file metadata'') st))"

text \<open>A receiver fed the frames of a list, in order.\<close>

fun receive_all :: "pair_state \<Rightarrow> bytes list \<Rightarrow> error + pair_state" where
  "receive_all st [] = Inr st"
| "receive_all st (d # ds) =
     (case handleReceivedData st d of Inl e \<Rightarrow> Inl e | Inr st' \<Rightarrow> receive_all st' ds)"

subsection \<open>Teardown\<close>

definition destroy :: "pair_state \<Rightarrow> pair_state" where
  "destroy st =
     (cleanup st)\<lparr>peer := None,
                  destroyed := destroyed st @ (case peer st of None \<Rightarrow> [] | Some p \<Rightarrow> [p]),
                  receivedChunks := [], fileData := JNull, expectedChunkIndex := 0\<rparr>"

definition isConnected :: "pair_state \<Rightarrow> bool" where
  "isConnected st = (case peer st of None \<Rightarrow> False | Some p \<Rightarrow> connected p)"


section \<open>ChatWebRTCManager (\<open>utils/chatWebRTC.ts\<close>)\<close>

record Subscriber =
  sub_id :: string
  sub_name :: string
  sub_connected :: bool
  joinedAt :: nat

record ChatSignalData =
  csd_type :: string
  csd_signal :: string
  csd_subscriberId :: "string option"
  csd_subscriberName :: "string option"

text \<open>The state of one incoming file, an entry of \<open>fileTransfers\<close>.\<close>

record transfer =
  t_chunks :: "(nat \<times> bytes) list"
  t_receivedChunks :: nat
  totalChunks :: jsval
  fileName :: jsval
  fileSize :: jsval
  fileType :: jsval

text \<open>
  The content of a file message is a template string around the file name:
  \<open>Receiving v\<close> stands for the folder sign, \<open>Receiving\<close>, the name and three dots,
  \<open>Named v\<close> for the folder sign and the name. \<open>ObjectURL type bytes\<close> is
  \<open>URL.createObjectURL(new Blob(chunks, {type}))\<close>.
\<close>

datatype template = Receiving jsval | Named jsval

datatype object_url = ObjectURL jsval bytes

record file_message =
  fm_id :: jsval
  fm_content :: template
  fm_name :: jsval
  fm_size :: jsval
  fm_type :: jsval
  fm_url :: "object_url option"

datatype chat_callback =
    OnMessage jsval
  | OnFileMessage file_message
  | OnSubscriberJoined Subscriber
  | OnSubscriberLeft string
  | OnChatConnected
  | OnChatDisconnected
  | OnFileProgress "jsnum option" jsval

record chat_state =
  isHost :: bool
  peers :: "(string \<times> peer) list"
  subscribers :: "(string \<times> Subscriber) list"
  hostPeer :: "peer option"
  subscriberId :: string
  subscriberName :: string
  fileTransfers :: "(jsval \<times> transfer) list"
  chat_callbacks :: "chat_callback list"
  chat_console :: "console list"
  chat_destroyed :: "peer list"

definition ChatWebRTCManager :: "bool \<Rightarrow> string \<Rightarrow> chat_state" where
  "ChatWebRTCManager host name =
     \<lparr>isHost = host, peers = [], subscribers = [], hostPeer = None, subscriberId = [],
      subscriberName = name, fileTransfers = [], chat_callbacks = [], chat_console = [],
      chat_destroyed = []\<rparr>"

definition chat_fire :: "chat_callback \<Rightarrow> chat_state \<Rightarrow> chat_state" where
  "chat_fire c st = st\<lparr>chat_callbacks := chat_callbacks st @ [c]\<rparr>"

definition chat_say :: "console \<Rightarrow> chat_state \<Rightarrow> chat_state" where
  "chat_say c st = st\<lparr>chat_console := chat_console st @ [c]\<rparr>"

text \<open>A string is falsy when it is missing or empty.\<close>

fun present :: "string option \<Rightarrow> bool" where
  "present None = False"
| "present (Some s) = (s \<noteq> [])"

subsection \<open>Offers and answers\<close>

text \<open>
  \<open>createOffer\<close>; \<open>subscriberId\<close> is what \<open>generateId()\<close> returns. The executor of the
  promise runs at once, so the transport is stored before the call returns.
\<close>

definition createOffer :: "chat_state \<Rightarrow> string \<Rightarrow> error option \<times> chat_state" where
  "createOffer st sid =
     (if \<not> isHost st then (Some OnlyHostCanCreateOffers, st)
      else (None, st\<lparr>peers := AList.update sid new_Peer (peers st)\<rparr>))"

definition createAnswer :: "chat_state \<Rightarrow> ChatSignalData \<Rightarrow> error option \<times> chat_state" where
  "createAnswer st offerData =
     (if isHost st then (Some HostCannotCreateAnswers, st)
      else if \<not> present (csd_subscriberId offerData) then (Some MissingSubscriberId, st)
      else
        (case peer_signal new_Peer (csd_signal offerData) of (threw, p) \<Rightarrow>
           if threw then (Some SignalFailed, st\<lparr>subscriberId := the (csd_subscriberId offerData)\<rparr>)
           else (None, st\<lparr>subscriberId := the (csd_subscriberId offerData), hostPeer := Some p\<rparr>)))"

subsection \<open>Messages\<close>

text \<open>
  One iteration of \<open>targets.forEach\<close>: the frame is sent to the subscriber's transport
  when there is one and it is connected; a throwing \<open>send\<close> is caught and logged.
\<close>

definition send_to :: "wire \<Rightarrow> chat_state \<Rightarrow> string \<Rightarrow> chat_state" where
  "send_to w st sid =
     (case map_of (peers st) sid of
        None \<Rightarrow> st
      | Some p \<Rightarrow>
          if \<not> connected p then st
          else
            (case peer_send p w of (threw, p') \<Rightarrow>
               chat_say (if threw then CError ''Failed to send to subscriber''
                         else CLog ''Host sent to subscriber'')
                 (st\<lparr>peers := AList.update sid p' (peers st)\<rparr>)))"

definition send_to_host :: "wire \<Rightarrow> chat_state \<Rightarrow> chat_state" where
  "send_to_host w st =
     (case hostPeer st of
        None \<Rightarrow> st
      | Some p \<Rightarrow>
          if \<not> connected p then st
          else
            (case peer_send p w of (threw, p') \<Rightarrow>
               chat_say (if threw then CError ''Failed to send message to host''
                         else CLog ''Subscriber sent message to host'')
                 (st\<lparr>hostPeer := Some p'\<rparr>)))"

definition ChatMessage :: "chat_state \<Rightarrow> string \<Rightarrow> string \<Rightarrow> nat \<Rightarrow> jlit" where
  "ChatMessage st msg_id body now =
     LObj [(''id'', LStr msg_id), (''content'', LStr body), (''timestamp'', LNat now),
           (''sender'', LStr (if isHost st then ''host'' else ''subscriber'')),
           (''subscriberId'', if isHost st then LUndefined else LStr (subscriberId st)),
           (''type'', LStr ''text'')]"

definition message_frame :: "jlit \<Rightarrow> wire" where
  "message_frame m = Text (stringify (LObj [(''type'', LStr ''message''), (''data'', m)]))"

text \<open>
  \<open>sendMessage(content, targetSubscribers?)\<close>; \<open>msg_id\<close> and \<open>now\<close> are what
  \<open>generateId()\<close> and \<open>Date.now()\<close> return.
\<close>

definition targets_of :: "chat_state \<Rightarrow> string list option \<Rightarrow> string list" where
  "targets_of st targetSubscribers =
     (case targetSubscribers of Some ts \<Rightarrow> ts | None \<Rightarrow> map fst (subscribers st))"

definition sendMessage ::
  "chat_state \<Rightarrow> string \<Rightarrow> string list option \<Rightarrow> string \<Rightarrow> nat \<Rightarrow> chat_state" where
  "sendMessage st body targetSubscribers msg_id now =
     chat_fire (OnMessage (to_jsval (ChatMessage st msg_id body now)))
       (if isHost st
        then foldl (send_to (message_frame (ChatMessage st msg_id body now))) st
               (targets_of st targetSubscribers)
        else send_to_host (message_frame (ChatMessage st msg_id body now)) st)"

text \<open>
  \<open>processAnswer(answerData)\<close>; \<open>now\<close>, \<open>msg_id\<close> and \<open>msg_now\<close> are what \<open>Date.now()\<close>,
  \<open>generateId()\<close> and the second \<open>Date.now()\<close> return.
\<close>

definition processAnswer ::
  "chat_state \<Rightarrow> ChatSignalData \<Rightarrow> nat \<Rightarrow> string \<Rightarrow> nat \<Rightarrow> error option \<times> chat_state" where
  "processAnswer st answerData now msg_id msg_now =
     (if \<not> isHost st then (Some OnlyHostCanProcessAnswers, st)
      else if \<not> present (csd_subscriberId answerData) \<or> \<not> present (csd_subscriberName answerData)
        then (Some InvalidAnswerData, st)
      else
        (case map_of (peers st) (the (csd_subscriberId answerData)) of
           None \<Rightarrow> (Some PeerNotFoundForSubscriber, st)
         | Some p \<Rightarrow>
             (case peer_signal p (csd_signal answerData) of (threw, p') \<Rightarrow>
                if threw
                then (Some SignalFailed,
                      st\<lparr>peers := AList.update (the (csd_subscriberId answerData)) p' (peers st)\<rparr>)
                else
                  (None,
                   sendMessage
                     (chat_fire
                        (OnSubscriberJoined
                           \<lparr>sub_id = the (csd_subscriberId answerData),
                            sub_name = the (csd_subscriberName answerData),
                            sub_connected = True, joinedAt = now\<rparr>)
                        (st\<lparr>peers := AList.update (the (csd_subscriberId answerData)) p' (peers st),
                            subscribers :=
                              AList.update (the (csd_subscriberId answerData))
                                \<lparr>sub_id = the (csd_subscriberId answerData),
                                 sub_name = the (csd_subscriberName answerData),
                                 sub_connected = True, joinedAt = now\<rparr>
                                (subscribers st)\<rparr>))
                     ''Welcome to the chat!''
                     (Some [the (csd_subscriberId answerData)]) msg_id msg_now))))"

subsection \<open>Sending a file\<close>

definition chat_fileStart :: "string \<Rightarrow> File \<Rightarrow> nat \<Rightarrow> wire" where
  "chat_fileStart fileId f chunks =
     Text (stringify (LObj [(''type'', LStr ''fileStart''),
       (''data'', LObj [(''fileId'', LStr fileId), (''fileName'', LStr (fname f)),
                        (''fileSize'', LNat (fsize f)), (''fileType'', LStr (ftype f)),
                        (''totalChunks'', LNat chunks)])]))"

definition chat_fileChunk :: "string \<Rightarrow> nat \<Rightarrow> nat \<Rightarrow> wire" where
  "chat_fileChunk fileId i chunks =
     Text (stringify (LObj [(''type'', LStr ''fileChunk''),
       (''data'', LObj [(''fileId'', LStr fileId), (''chunkIndex'', LNat i),
                        (''totalChunks'', LNat chunks)])]))"

definition chat_fileComplete :: "string \<Rightarrow> wire" where
  "chat_fileComplete fileId =
     Text (stringify (LObj [(''type'', LStr ''fileComplete''),
       (''data'', LObj [(''fileId'', LStr fileId)])]))"

text \<open>
  One target of the chunk loop: the chunk's control frame, then the chunk; when the
  first \<open>send\<close> throws the second is not made.
\<close>

definition send_chunk_to :: "wire \<Rightarrow> wire \<Rightarrow> chat_state \<Rightarrow> string \<Rightarrow> chat_state" where
  "send_chunk_to meta chunk st sid =
     (case map_of (peers st) sid of
        None \<Rightarrow> st
      | Some p \<Rightarrow>
          if \<not> connected p then st
          else
            (case peer_send p meta of (threw, p') \<Rightarrow>
               if threw
               then chat_say (CError ''Failed to send file chunk'')
                      (st\<lparr>peers := AList.update sid p' (peers st)\<rparr>)
               else
                 (case peer_send p' chunk of (threw', p'') \<Rightarrow>
                    (if threw' then chat_say (CError ''Failed to send file chunk'') else id)
                      (st\<lparr>peers := AList.update sid p'' (peers st)\<rparr>))))"

function chat_sendChunks ::
  "File \<Rightarrow> string \<Rightarrow> string list \<Rightarrow> nat \<Rightarrow> nat \<Rightarrow> chat_state \<Rightarrow> chat_state" where
  "chat_sendChunks f fileId targets chunks i st =
     (if i < chunks then
        chat_sendChunks f fileId targets chunks (Suc i)
          (chat_fire
             (OnFileProgress (percentage (Suc i) (JNum (Fin (int chunks) 0))) (JStr (fname f)))
             (foldl (send_chunk_to (chat_fileChunk fileId i chunks) (Binary (chunk_of f i)))
                st targets))
      else st)"
  by pat_completeness auto
termination
  by (relation "measure (\<lambda>(f, fileId, targets, chunks, i, st). chunks - i)") auto

declare chat_sendChunks.simps [simp del]

text \<open>\<open>sendFile(file, targetSubscribers?)\<close> of the host; \<open>fileId\<close> is \<open>generateId()\<close>.\<close>

definition chat_sendFile ::
  "chat_state \<Rightarrow> File \<Rightarrow> string list option \<Rightarrow> string \<Rightarrow> error option \<times> chat_state" where
  "chat_sendFile st f targetSubscribers fileId =
     (if \<not> isHost st then (Some OnlyHostCanSendFiles, st)
      else
        (None,
         foldl (send_to (chat_fileComplete fileId))
           (chat_sendChunks f fileId (targets_of st targetSubscribers)
              (Math_ceil_div (fsize f) CHUNK_SIZE) 0
              (foldl (send_to (chat_fileStart fileId f (Math_ceil_div (fsize f) CHUNK_SIZE)))
                 (chat_fire
                    (OnFileMessage
                       \<lparr>fm_id = JStr fileId, fm_content = Named (JStr (fname f)),
                        fm_name = JStr (fname f), fm_size = JNum (Fin (int (fsize f)) 0),
                        fm_type = JStr (ftype f), fm_url = None\<rparr>) st)
                 (targets_of st targetSubscribers)))
           (targets_of st targetSubscribers)))"

subsection \<open>Receiving\<close>

text \<open>
  The keys of \<open>fileTransfers\<close> are whatever \<open>fileId\<close> a control frame carried. A \<open>Map\<close>
  compares keys by SameValueZero: primitives by value, and an array or object parsed
  from one frame is never the object parsed from another.
\<close>

fun same_value_zero :: "jsval \<Rightarrow> jsval \<Rightarrow> bool" where
  "same_value_zero JUndefined JUndefined = True"
| "same_value_zero JNull JNull = True"
| "same_value_zero (JBool a) (JBool b) = (a = b)"
| "same_value_zero (JNum a) (JNum b) = (a = b \<or> (is_zero a \<and> is_zero b))"
| "same_value_zero (JStr a) (JStr b) = (a = b)"
| "same_value_zero _ _ = False"

fun Map_get :: "(jsval \<times> 'v) list \<Rightarrow> jsval \<Rightarrow> 'v option" where
  "Map_get [] k = None"
| "Map_get ((k', v) # m) k = (if same_value_zero k' k then Some v else Map_get m k)"

fun Map_set :: "(jsval \<times> 'v) list \<Rightarrow> jsval \<Rightarrow> 'v \<Rightarrow> (jsval \<times> 'v) list" where
  "Map_set [] k v = [(k, v)]"
| "Map_set ((k', v') # m) k v =
     (if same_value_zero k' k then (k', v) # m else (k', v') # Map_set m k v)"

fun Map_delete :: "(jsval \<times> 'v) list \<Rightarrow> jsval \<Rightarrow> (jsval \<times> 'v) list" where
  "Map_delete [] k = []"
| "Map_delete ((k', v) # m) k = (if same_value_zero k' k then m else (k', v) # Map_delete m k)"

text \<open>
  \<open>handleFileStart\<close>; destructuring \<open>undefined\<close> or \<open>null\<close> throws before any change of
  state.
\<close>

definition handleFileStart :: "chat_state \<Rightarrow> jsval \<Rightarrow> error + chat_state" where
  "handleFileStart st fd =
     (case get_prop fd ''fileId'' of
        Inl e \<Rightarrow> Inl e
      | Inr fileId \<Rightarrow>
          Inr (chat_fire
                 (OnFileMessage
                    \<lparr>fm_id = fileId, fm_content = Receiving (field fd ''fileName''),
                     fm_name = field fd ''fileName'', fm_size = field fd ''fileSize'',
                     fm_type = field fd ''fileType'', fm_url = None\<rparr>)
                 (st\<lparr>fileTransfers :=
                       Map_set (fileTransfers st) fileId
                         \<lparr>t_chunks = [], t_receivedChunks = 0,
                          totalChunks = field fd ''totalChunks'',
                          fileName = field fd ''fileName'',
                          fileSize = field fd ''fileSize'',
                          fileType = field fd ''fileType''\<rparr>\<rparr>)))"

definition handleFileChunkMeta :: "chat_state \<Rightarrow> jsval \<Rightarrow> chat_state" where
  "handleFileChunkMeta st chunkData = st"

text \<open>
  The loop of \<open>handleBinaryChunk\<close> over \<open>fileTransfers.entries()\<close>, in insertion order:
  the chunk goes to the first transfer with \<open>receivedChunks < totalChunks\<close>. The
  result is the updated entries and the transfer that took the chunk, if any; \<open>None\<close>
  when the comparison needs the conversion of a string to a number, which is outside
  the model.
\<close>

fun store_chunk ::
  "(jsval \<times> transfer) list \<Rightarrow> bytes \<Rightarrow> ((jsval \<times> transfer) list \<times> transfer option) option" where
  "store_chunk [] data = Some ([], None)"
| "store_chunk ((fileId, t) # ts) data =
     (case js_less_nat (t_receivedChunks t) (totalChunks t) of
        None \<Rightarrow> None
      | Some True \<Rightarrow>
          Some ((fileId,
                 t\<lparr>t_chunks := AList.update (t_receivedChunks t) data (t_chunks t),
                   t_receivedChunks := Suc (t_receivedChunks t)\<rparr>) # ts,
                Some (t\<lparr>t_chunks := AList.update (t_receivedChunks t) data (t_chunks t),
                        t_receivedChunks := Suc (t_receivedChunks t)\<rparr>))
      | Some False \<Rightarrow>
          (case store_chunk ts data of
             None \<Rightarrow> None
           | Some (ts', r) \<Rightarrow> Some ((fileId, t) # ts', r)))"

definition chat_handleBinaryChunk :: "chat_state \<Rightarrow> bytes \<Rightarrow> chat_state option" where
  "chat_handleBinaryChunk st data =
     (case store_chunk (fileTransfers st) data of
        None \<Rightarrow> None
      | Some (ts, None) \<Rightarrow> Some st
      | Some (ts, Some t) \<Rightarrow>
          Some (chat_fire
                  (OnFileProgress (percentage (t_receivedChunks t) (totalChunks t)) (fileName t))
                  (st\<lparr>fileTransfers := ts\<rparr>)))"

definition handleFileComplete :: "chat_state \<Rightarrow> jsval \<Rightarrow> error + chat_state" where
  "handleFileComplete st fd =
     (case get_prop fd ''fileId'' of
        Inl e \<Rightarrow> Inl e
      | Inr fileId \<Rightarrow>
          (case Map_get (fileTransfers st) fileId of
             None \<Rightarrow> Inr (chat_say (CError ''File transfer not found'') st)
           | Some t \<Rightarrow>
               if \<not> strict_eq_nat (t_receivedChunks t) (totalChunks t)
               then Inr (chat_say (CError ''Incomplete file transfer'') st)
               else
                 (case collect (t_chunks t) (t_receivedChunks t) 0 [] of
                    None \<Rightarrow> Inr (chat_say (CError ''Missing chunk'') st)
                  | Some chunks \<Rightarrow>
                      Inr (chat_fire
                             (OnFileMessage
                                \<lparr>fm_id = fileId, fm_content = Named (fileName t),
                                 fm_name = fileName t, fm_size = fileSize t,
                                 fm_type = fileType t,
                                 fm_url = Some (ObjectURL (fileType t) (concat chunks))\<rparr>)
                             (st\<lparr>fileTransfers := Map_delete (fileTransfers st) fileId\<rparr>)))))"

definition chat_dispatch :: "chat_state \<Rightarrow> jsval \<Rightarrow> jsval \<Rightarrow> error + chat_state" where
  "chat_dispatch st ty parsed =
     (if ty = JStr ''message'' then Inr (chat_fire (OnMessage (field parsed ''data'')) st)
      else if ty = JStr ''fileStart'' then handleFileStart st (field parsed ''data'')
      else if ty = JStr ''fileChunk'' then Inr (handleFileChunkMeta st (field parsed ''data''))
      else if ty = JStr ''fileComplete'' then handleFileComplete st (field parsed ''data'')
      else Inr (chat_say (CWarn ''Unknown message type'') st))"

definition chat_try_block :: "chat_state \<Rightarrow> bytes \<Rightarrow> error + chat_state" where
  "chat_try_block st data =
     (case JSON_parse data of
        None \<Rightarrow> Inl SyntaxError
      | Some parsed \<Rightarrow>
          (case get_prop parsed ''type'' of
             Inl e \<Rightarrow> Inl e
           | Inr ty \<Rightarrow> chat_dispatch st ty parsed))"

text \<open>
  \<open>handleReceivedData(data, senderId)\<close>: whatever the \<open>try\<close> block throws, the frame
  is then handled as a chunk. The sender's id is only logged.
\<close>

definition chat_handleReceivedData :: "chat_state \<Rightarrow> bytes \<Rightarrow> string \<Rightarrow> chat_state option" where
  "chat_handleReceivedData st data senderId =
     (case chat_try_block st data of
        Inr st' \<Rightarrow> Some st'
      | Inl e \<Rightarrow> chat_handleBinaryChunk st data)"

fun chat_receive_all :: "chat_state \<Rightarrow> bytes list \<Rightarrow> string \<Rightarrow> chat_state option" where
  "chat_receive_all st [] senderId = Some st"
| "chat_receive_all st (d # ds) senderId =
     (case chat_handleReceivedData st d senderId of
        None \<Rightarrow> None
      | Some st' \<Rightarrow> chat_receive_all st' ds senderId)"

subsection \<open>Membership and teardown\<close>

definition forget_subscriber :: "chat_state \<Rightarrow> string \<Rightarrow> chat_state" where
  "forget_subscriber st sid =
     (if map_of (subscribers st) sid \<noteq> None
      then chat_fire (OnSubscriberLeft sid)
             (st\<lparr>subscribers := AList.delete sid (subscribers st)\<rparr>)
      else st)"

definition removeSubscriber :: "chat_state \<Rightarrow> string \<Rightarrow> chat_state" where
  "removeSubscriber st sid =
     (case map_of (peers st) sid of
        None \<Rightarrow> forget_subscriber st sid
      | Some p \<Rightarrow>
          (forget_subscriber st sid)
            \<lparr>peers := AList.delete sid (peers st), chat_destroyed := chat_destroyed st @ [p]\<rparr>)"

definition getSubscriberCount :: "chat_state \<Rightarrow> nat" where
  "getSubscriberCount st = length (subscribers st)"

definition chat_isConnected :: "chat_state \<Rightarrow> bool" where
  "chat_isConnected st =
     (if isHost st then 0 < length (peers st)
      else (case hostPeer st of None \<Rightarrow> False | Some p \<Rightarrow> connected p))"

definition chat_destroy :: "chat_state \<Rightarrow> chat_state" where
  "chat_destroy st =
     st\<lparr>chat_destroyed :=
          chat_destroyed st @ map snd (peers st)
            @ (case hostPeer st of None \<Rightarrow> [] | Some p \<Rightarrow> [p]),
        peers := [], hostPeer := None, subscribers := []\<rparr>"

text \<open>
  The \<open>close\<close> handlers: of a host's transport for \<open>subscriberId\<close>, and of a
  subscriber's transport to the host.
\<close>

definition on_subscriber_close :: "chat_state \<Rightarrow> string \<Rightarrow> chat_state" where
  "on_subscriber_close st sid = removeSubscriber st sid"

definition on_host_close :: "chat_state \<Rightarrow> chat_state" where
  "on_host_close st = chat_fire OnChatDisconnected st"


section \<open>Evaluation rules\<close>

lemmas str_eval = quote_def quote_char_def hex_digit_def digit_char_def digits.simps
  fileStart_def chunkStart_def fileComplete_def FileData_def

lemmas recv_eval = handleReceivedData_def try_block_def dispatch_def handleBinaryChunk_def
  assembleFile_def fire_def say_def WebRTCManager_def percentage_def field_def collect.simps

section \<open>Properties of the pair receiver\<close>

text \<open>
  The two ways the \<open>try\<close> block of \<open>handleReceivedData\<close> throws are both taken by some
  frame: a frame that is not JSON, and the frame \<open>null\<close>.
\<close>

lemma try_block_throws_SyntaxError: "try_block (WebRTCManager False) ''abc'' = Inl SyntaxError"
  by (simp add: try_block_def json_eval)

lemma try_block_throws_TypeError: "try_block (WebRTCManager False) ''null'' = Inl TypeError"
  by (simp add: try_block_def json_eval)



subsection \<open>The keys of the received chunks\<close>

text \<open>
  In every state the receiver reaches, the keys of \<open>receivedChunks\<close> are
  \<open>0, ..., expectedChunkIndex - 1\<close> in this order, so \<open>receivedChunks.size\<close> (the count
  the progress and the assembly use) and \<open>expectedChunkIndex\<close> (the next index) agree.
\<close>

definition keys_in_order :: "pair_state \<Rightarrow> bool" where
  "keys_in_order st = (map fst (receivedChunks st) = [0..<expectedChunkIndex st])"

lemma update_fresh: "k \<notin> fst ` set ps \<Longrightarrow> AList.update k v ps = ps @ [(k, v)]"
  by (induction ps) auto


lemma update_next:
  assumes "keys_in_order st"
  shows "AList.update (expectedChunkIndex st) data (receivedChunks st)
         = receivedChunks st @ [(expectedChunkIndex st, data)]"
proof -
  have "expectedChunkIndex st \<notin> set (map fst (receivedChunks st))"
    using assms by (simp add: keys_in_order_def)
  then show ?thesis by (simp add: update_fresh)
qed

lemma keys_in_order_init: "keys_in_order (WebRTCManager b)"
  by (simp add: keys_in_order_def WebRTCManager_def)

lemma keys_in_order_assembleFile: "keys_in_order st \<Longrightarrow> keys_in_order (assembleFile st)"
  by (auto simp: keys_in_order_def assembleFile_def say_def fire_def split: option.splits)

lemma keys_in_order_handleBinaryChunk:
  assumes "keys_in_order st"
  shows "keys_in_order (handleBinaryChunk st data)"
  using assms update_next [OF assms, of data]
  by (auto simp: keys_in_order_def handleBinaryChunk_def say_def fire_def)

lemma keys_in_order_handleReceivedData:
  assumes "keys_in_order st" and "handleReceivedData st data = Inr st'"
  shows "keys_in_order st'"
proof (cases "try_block st data")
  case (Inl e)
  then show ?thesis
    using assms keys_in_order_handleBinaryChunk [OF assms(1), of data]
    by (auto simp: handleReceivedData_def keys_in_order_def say_def split: if_splits)
next
  case (Inr st1)
  then have "st' = st1"
    using assms(2) by (simp add: handleReceivedData_def)
  moreover have "keys_in_order st1"
    using Inr assms(1) keys_in_order_assembleFile [OF assms(1)]
    by (auto simp: try_block_def dispatch_def keys_in_order_def say_def
             split: option.splits sum.splits if_splits)
  ultimately show ?thesis by simp
qed

lemma keys_in_order_receive_all:
  "keys_in_order st \<Longrightarrow> receive_all st ds = Inr st' \<Longrightarrow> keys_in_order st'"
proof (induction ds arbitrary: st)
  case Nil
  then show ?case by simp
next
  case (Cons d ds)
  then show ?case
    by (auto split: sum.splits dest: keys_in_order_handleReceivedData)
qed

lemma keys_in_order_destroy: "keys_in_order (destroy st)"
  by (simp add: keys_in_order_def destroy_def cleanup_def)

subsection \<open>A binary frame\<close>






definition callbacks_of :: "error + pair_state \<Rightarrow> callback list" where
  "callbacks_of r = (case r of Inl e \<Rightarrow> [] | Inr st \<Rightarrow> callbacks st)"






subsection \<open>Assembly\<close>










text \<open>
  A complete pair receiver and a broadcast receiver holding one complete transfer,
  each of two chunks; and the same two with the second chunk missing.
\<close>

definition two_chunks :: jsval where
  "two_chunks = JObj [(''name'', JStr ''a.txt''), (''size'', JNum (Fin 4 0)),
     (''type'', JStr ''text/plain''), (''chunks'', JNum (Fin 2 0))]"

definition pair_with :: "(nat \<times> bytes) list \<Rightarrow> pair_state" where
  "pair_with rc = (WebRTCManager False)
     \<lparr>fileData := two_chunks, receivedChunks := rc, expectedChunkIndex := length rc\<rparr>"

definition transfer_with :: "(nat \<times> bytes) list \<Rightarrow> transfer" where
  "transfer_with cs = \<lparr>t_chunks = cs, t_receivedChunks = length cs,
     totalChunks = JNum (Fin 2 0), fileName = JStr ''a.txt'', fileSize = JNum (Fin 4 0),
     fileType = JStr ''text/plain''\<rparr>"

definition subscriber_with :: "(nat \<times> bytes) list \<Rightarrow> chat_state" where
  "subscriber_with cs = (ChatWebRTCManager False ''Ann'')
     \<lparr>fileTransfers := [(JStr ''f1'', transfer_with cs)]\<rparr>"


lemma incomplete_assembly_fires_nothing:
  "callbacks (assembleFile (pair_with [(0, ''ab'')])) = [] \<and>
   (\<exists>cst'. handleFileComplete (subscriber_with [(0, ''ab'')]) (JObj [(''fileId'', JStr ''f1'')])
              = Inr cst' \<and> chat_callbacks cst' = [])"
  by (simp add: assembleFile_def pair_with_def two_chunks_def WebRTCManager_def field_def say_def
        handleFileComplete_def subscriber_with_def transfer_with_def ChatWebRTCManager_def
        chat_say_def)


section \<open>Properties of the pair sender\<close>

definition sender_progress :: "nat \<Rightarrow> nat \<Rightarrow> callback" where
  "sender_progress chunks i =
     OnProgress \<lparr>sent = Suc i, p_total = JNum (Fin (int chunks) 0),
                 p_percentage = percentage (Suc i) (JNum (Fin (int chunks) 0)), speed = 0\<rparr>"

definition chunk_frames :: "File \<Rightarrow> nat \<Rightarrow> nat \<Rightarrow> wire list" where
  "chunk_frames f chunks i = [chunkStart i (length (chunk_of f i)) chunks, Binary (chunk_of f i)]"

text \<open>The frames of one file: what \<open>sendFile\<close> sends when no \<open>send\<close> throws.\<close>

definition frames_of :: "File \<Rightarrow> wire list" where
  "frames_of f =
     [fileStart (FileData f (Math_ceil_div (fsize f) CHUNK_SIZE))]
     @ concat (map (chunk_frames f (Math_ceil_div (fsize f) CHUNK_SIZE))
                 [0..<Math_ceil_div (fsize f) CHUNK_SIZE])
     @ [fileComplete]"


lemma send_ok:
  "peer st = Some p \<Longrightarrow> \<not> send_throws p \<Longrightarrow>
   send st w = (None, st\<lparr>peer := Some (p\<lparr>send_calls := send_calls p @ [w]\<rparr>)\<rparr>)"
  by (simp add: send_def peer_send_def)

lemma sendChunks_frames:
  assumes "peer st = Some p" and "\<not> send_throws p"
  shows "sendChunks f chunks i st =
    (None, st\<lparr>peer := Some (p\<lparr>send_calls :=
                   send_calls p @ concat (map (chunk_frames f chunks) [i..<chunks])\<rparr>),
              callbacks := callbacks st @ map (sender_progress chunks) [i..<chunks]\<rparr>)"
  using assms
proof (induction "chunks - i" arbitrary: i st p)
  case 0
  then show ?case by (subst sendChunks.simps) simp
next
  case (Suc k)
  then have lt: "i < chunks" by simp
  let ?p1 = "p\<lparr>send_calls := send_calls p @ [chunkStart i (length (chunk_of f i)) chunks]\<rparr>"
  let ?p2 = "?p1\<lparr>send_calls := send_calls ?p1 @ [Binary (chunk_of f i)]\<rparr>"
  let ?st2 = "st\<lparr>peer := Some ?p2\<rparr>"
  let ?st3 = "fire (sender_progress chunks i) ?st2"
  have s1: "send st (chunkStart i (length (chunk_of f i)) chunks) = (None, st\<lparr>peer := Some ?p1\<rparr>)"
    using Suc.prems by (simp add: send_ok)
  have s2: "send (st\<lparr>peer := Some ?p1\<rparr>) (Binary (chunk_of f i)) = (None, ?st2)"
    using Suc.prems by (simp add: send_ok)
  have unfold: "sendChunks f chunks i st = sendChunks f chunks (Suc i) ?st3"
    using lt s1 s2 by (subst sendChunks.simps) (simp add: sender_progress_def)
  have k: "k = chunks - Suc i"
    using Suc.hyps(2) by simp
  have p3: "peer ?st3 = Some ?p2"
    by (simp add: fire_def)
  have t3: "\<not> send_throws ?p2"
    using Suc.prems by simp
  have "sendChunks f chunks (Suc i) ?st3 =
    (None, ?st3\<lparr>peer := Some (?p2\<lparr>send_calls :=
                   send_calls ?p2 @ concat (map (chunk_frames f chunks) [Suc i..<chunks])\<rparr>),
              callbacks := callbacks ?st3 @ map (sender_progress chunks) [Suc i..<chunks]\<rparr>)"
    using Suc.hyps(1) [OF k p3 t3] .
  then show ?case
    using lt unfold by (simp add: upt_conv_Cons fire_def chunk_frames_def)
qed

lemma sendFile_ok:
  assumes "peer st = Some p" and "connected p" and "\<not> send_throws p"
  shows "sendFile st f =
    (None, st\<lparr>fileData := to_jsval (FileData f (Math_ceil_div (fsize f) CHUNK_SIZE)),
              peer := Some (p\<lparr>send_calls := send_calls p @ frames_of f\<rparr>),
              callbacks := callbacks st @
                map (sender_progress (Math_ceil_div (fsize f) CHUNK_SIZE))
                  [0..<Math_ceil_div (fsize f) CHUNK_SIZE]\<rparr>)"
proof -
  let ?n = "Math_ceil_div (fsize f) CHUNK_SIZE"
  let ?p1 = "p\<lparr>send_calls := send_calls p @ [fileStart (FileData f ?n)]\<rparr>"
  let ?st1 = "st\<lparr>fileData := to_jsval (FileData f ?n), peer := Some ?p1\<rparr>"
  have s1: "send (st\<lparr>fileData := to_jsval (FileData f ?n)\<rparr>) (fileStart (FileData f ?n))
            = (None, ?st1)"
    using assms by (simp add: send_ok)
  have p1: "peer ?st1 = Some ?p1"
    by simp
  have t1: "\<not> send_throws ?p1"
    using assms by simp
  note s2 = sendChunks_frames [OF p1 t1, of f ?n 0]
  show ?thesis
    using assms unfolding sendFile_def by (simp add: s1 s2 send_ok frames_of_def)
qed



text \<open>
  A sender on a connected transport, and a file whose content is the two bytes
  \<open>{}\<close>.
\<close>

definition json_file :: File where
  "json_file = \<lparr>fname = ''a.json'', ftype = ''application/json'', content = ''{}''\<rparr>"

definition link :: peer where
  "link = \<lparr>connected = True, send_throws = False, signal_throws = False,
            send_calls = [], signal_calls = []\<rparr>"

definition sender :: pair_state where
  "sender = (WebRTCManager True)\<lparr>peer := Some link\<rparr>"

definition sent_frames :: "error option \<times> pair_state \<Rightarrow> wire list" where
  "sent_frames r = (case peer (snd r) of None \<Rightarrow> [] | Some p \<Rightarrow> send_calls p)"

definition console_of :: "error + pair_state \<Rightarrow> console list" where
  "console_of r = (case r of Inl e \<Rightarrow> [] | Inr st \<Rightarrow> console st)"

lemma json_file_frames:
  \<open>frames_of json_file =
    [Text ''{"type":"fileStart","data":{"name":"a.json","size":2,"type":"application/json","chunks":1}}'',
     Text ''{"type":"chunkStart","data":{"index":0,"size":2,"total":1}}'',
     Binary ''{}'',
     Text ''{"type":"fileComplete"}'']\<close>
  by (simp add: frames_of_def chunk_frames_def chunk_of_def slice_def fsize_def json_file_def
        Math_ceil_div_def CHUNK_SIZE_def str_eval)

lemma sendFile_json_file:
  "fst (sendFile sender json_file) = None \<and>
   sent_frames (sendFile sender json_file) = frames_of json_file"
proof -
  have p: "peer sender = Some link"
    by (simp add: sender_def)
  have c: "connected link" and t: "\<not> send_throws link"
    by (simp_all add: link_def)
  show ?thesis
    by (simp add: sendFile_ok [OF p c t] sent_frames_def link_def)
qed


section \<open>The pair protocol end to end\<close>

text \<open>
  The chunk count is the ceiling of size over chunk size, the chunks concatenate to
  the payload, a payload of 50000 bytes has 4 chunks of which the last has 848
  bytes, and an empty payload has none.
\<close>

lemma ceil_div_bounds:
  assumes "0 < c"
  shows "Math_ceil_div s c * c < s + c" and "s \<le> Math_ceil_div s c * c"
proof -
  let ?z = "(s + c - 1) div c"
  have "?z * c \<le> s + c - 1"
    by (rule div_times_less_eq_dividend)
  then have "?z * c < s + c"
    using assms by linarith
  then show "Math_ceil_div s c * c < s + c"
    unfolding Math_ceil_div_def .
  have "s + c - 1 < c + ?z * c"
    using assms by (rule dividend_less_div_times)
  then have "s \<le> ?z * c"
    using assms by linarith
  then show "s \<le> Math_ceil_div s c * c"
    unfolding Math_ceil_div_def .
qed

lemma chunk_count_ceiling:
  assumes "0 < c"
  shows "\<lceil>(of_nat s :: rat) / of_nat c\<rceil> = int (Math_ceil_div s c)"
proof (rule ceiling_unique)
  let ?z = "Math_ceil_div s c"
  have cpos: "(0 :: rat) < of_nat c"
    using assms by simp
  have "(of_nat (?z * c) :: rat) < of_nat (s + c)"
    using ceil_div_bounds(1) [OF assms] by (simp only: of_nat_less_iff)
  then have "(of_nat ?z - 1) * (of_nat c :: rat) < of_nat s"
    by (simp add: algebra_simps)
  then show "of_int (int ?z) - 1 < (of_nat s :: rat) / of_nat c"
    using cpos by (simp add: pos_less_divide_eq)
  have "(of_nat s :: rat) \<le> of_nat (?z * c)"
    using ceil_div_bounds(2) [OF assms] by (simp only: of_nat_le_iff)
  then show "(of_nat s :: rat) / of_nat c \<le> of_int (int ?z)"
    using cpos by (simp add: pos_divide_le_eq)
qed

lemma concat_slices: "concat (map (\<lambda>i. take c (drop (i * c) xs)) [0..<n]) = take (n * c) xs"
proof (induction n)
  case 0
  then show ?case by simp
next
  case (Suc n)
  have "take (n * c + c) xs = take (n * c) xs @ take c (drop (n * c) xs)"
    by (rule take_add)
  then show ?case
    using Suc by (simp add: add.commute)
qed

lemma chunk_of_take: "chunk_of f i = take CHUNK_SIZE (drop (i * CHUNK_SIZE) (content f))"
  by (simp add: chunk_of_def slice_def fsize_def min_def)

lemma chunks_concat:
  "concat (map (chunk_of f) [0..<Math_ceil_div (fsize f) CHUNK_SIZE]) = content f"
proof -
  have "0 < CHUNK_SIZE"
    by (simp add: CHUNK_SIZE_def)
  then have len: "length (content f) \<le> Math_ceil_div (fsize f) CHUNK_SIZE * CHUNK_SIZE"
    using ceil_div_bounds(2) [of CHUNK_SIZE "fsize f"] by (simp add: fsize_def)
  have "chunk_of f = (\<lambda>i. take CHUNK_SIZE (drop (i * CHUNK_SIZE) (content f)))"
    by (rule ext) (rule chunk_of_take)
  then show ?thesis
    using len by (simp add: concat_slices)
qed

lemma scenario_50000:
  assumes "fsize f = 50000"
  shows "Math_ceil_div (fsize f) CHUNK_SIZE = 4 \<and> length (chunk_of f 3) = 848"
  using assms by (simp add: Math_ceil_div_def CHUNK_SIZE_def chunk_of_def slice_def fsize_def)

lemma empty_file_no_chunks: "fsize f = 0 \<Longrightarrow> Math_ceil_div (fsize f) CHUNK_SIZE = 0"
  by (simp add: Math_ceil_div_def CHUNK_SIZE_def)

text \<open>
  Claim C1 fails on the code for a payload a chunk of which is itself JSON text. The
  receiver tells a chunk from a control frame by whether \<open>JSON.parse\<close> throws on it;
  the chunk \<open>{}\<close> parses, has no \<open>type\<close>, and is dropped as an unknown message. The
  sender sends the four frames of the file, chunk count 1; the receiver fed these
  frames in order fires no callback at all: the completion finds 0 chunks where 1
  was announced.
\<close>

theorem json_payload_lost:
  \<open>fst (sendFile sender json_file) = None \<and>
   sent_frames (sendFile sender json_file) =
    [Text ''{"type":"fileStart","data":{"name":"a.json","size":2,"type":"application/json","chunks":1}}'',
     Text ''{"type":"chunkStart","data":{"index":0,"size":2,"total":1}}'',
     Binary ''{}'',
     Text ''{"type":"fileComplete"}''] \<and>
   callbacks_of (receive_all (WebRTCManager False)
     (map wire_bytes (sent_frames (sendFile sender json_file)))) = [] \<and>
   console_of (receive_all (WebRTCManager False)
     (map wire_bytes (sent_frames (sendFile sender json_file)))) =
     [CWarn ''Unknown message type'', CError ''Cannot assemble file: wrong number of chunks'']\<close>
  unfolding sendFile_json_file [THEN conjunct2] json_file_frames
  by (simp add: sendFile_json_file json_eval num_eval recv_eval callbacks_of_def console_of_def)


section \<open>Properties of the broadcast manager\<close>

subsection \<open>Fan-out of a message\<close>

text \<open>
  \<open>send_count\<close> is the number of \<open>send\<close> calls made so far on the host's transports,
  throwing or not. \<open>all_connected st ts\<close>: each id of \<open>ts\<close> has a transport, and that
  transport is connected.
\<close>

definition send_count :: "chat_state \<Rightarrow> nat" where
  "send_count st = sum_list (map (\<lambda>kp. length (send_calls (snd kp))) (peers st))"

definition all_connected :: "chat_state \<Rightarrow> string list \<Rightarrow> bool" where
  "all_connected st ts = (\<forall>k \<in> set ts. \<exists>p. map_of (peers st) k = Some p \<and> connected p)"

lemma sum_list_update:
  fixes g :: "'a \<times> 'b \<Rightarrow> nat"
  shows "map_of ps k = Some p \<Longrightarrow>
   sum_list (map g (AList.update k v ps)) + g (k, p) = sum_list (map g ps) + g (k, v)"
  by (induction ps) (auto split: if_splits)

lemma send_to_unchanged:
  "isHost (send_to w st k) = isHost st \<and> subscribers (send_to w st k) = subscribers st \<and>
   chat_callbacks (send_to w st k) = chat_callbacks st \<and>
   fileTransfers (send_to w st k) = fileTransfers st \<and> hostPeer (send_to w st k) = hostPeer st"
  by (simp add: send_to_def chat_say_def peer_send_def split: option.splits)

lemma send_to_peer:
  "map_of (peers (send_to w st k)) k' =
     (if k' = k
      then map_option (\<lambda>p. if connected p then p\<lparr>send_calls := send_calls p @ [w]\<rparr> else p)
             (map_of (peers st) k)
      else map_of (peers st) k')"
  by (auto simp: send_to_def chat_say_def peer_send_def update_conv' split: option.splits)

lemma send_to_count:
  assumes "map_of (peers st) k = Some p" and "connected p"
  shows "send_count (send_to w st k) = Suc (send_count st)"
  using assms sum_list_update [OF assms(1), of "\<lambda>kp. length (send_calls (snd kp))"
      "p\<lparr>send_calls := send_calls p @ [w]\<rparr>"]
  by (simp add: send_to_def send_count_def chat_say_def peer_send_def)

lemma all_connected_send_to:
  assumes "all_connected st ts"
  shows "all_connected (send_to w st k) ts"
  unfolding all_connected_def
proof
  fix k'
  assume "k' \<in> set ts"
  then obtain p where p: "map_of (peers st) k' = Some p" "connected p"
    using assms by (auto simp: all_connected_def)
  show "\<exists>p. map_of (peers (send_to w st k)) k' = Some p \<and> connected p"
    using p by (cases "k' = k") (simp_all add: send_to_peer)
qed

lemma foldl_send_to_unchanged:
  "isHost (foldl (send_to w) st ts) = isHost st \<and>
   subscribers (foldl (send_to w) st ts) = subscribers st \<and>
   chat_callbacks (foldl (send_to w) st ts) = chat_callbacks st \<and>
   fileTransfers (foldl (send_to w) st ts) = fileTransfers st"
  by (induction ts arbitrary: st) (simp_all add: send_to_unchanged)

lemma foldl_send_to_count:
  "all_connected st ts \<Longrightarrow> send_count (foldl (send_to w) st ts) = send_count st + length ts"
proof (induction ts arbitrary: st)
  case Nil
  then show ?case by simp
next
  case (Cons k ts)
  from Cons.prems obtain p where p: "map_of (peers st) k = Some p" "connected p"
    by (auto simp: all_connected_def)
  have "all_connected st ts"
    using Cons.prems by (simp add: all_connected_def)
  then have "all_connected (send_to w st k) ts"
    by (rule all_connected_send_to)
  then show ?case
    using Cons.IH [of "send_to w st k"] send_to_count [OF p] by simp
qed

lemma foldl_send_to_other:
  "k \<notin> set ts \<Longrightarrow> map_of (peers (foldl (send_to w) st ts)) k = map_of (peers st) k"
  by (induction ts arbitrary: st) (auto simp: send_to_peer)

lemma foldl_send_to_peer:
  assumes "distinct ts" and "k \<in> set ts" and "map_of (peers st) k = Some p" and "connected p"
  shows "map_of (peers (foldl (send_to w) st ts)) k
         = Some (p\<lparr>send_calls := send_calls p @ [w]\<rparr>)"
  using assms
proof (induction ts arbitrary: st)
  case Nil
  then show ?case by simp
next
  case (Cons a ts)
  show ?case
  proof (cases "a = k")
    case True
    then have "k \<notin> set ts"
      using Cons.prems(1) by simp
    then show ?thesis
      using True Cons.prems by (simp add: foldl_send_to_other send_to_peer)
  next
    case False
    then have "k \<in> set ts"
      using Cons.prems(2) by simp
    moreover have "map_of (peers (send_to w st a)) k = Some p"
      using False Cons.prems(3) by (simp add: send_to_peer)
    ultimately show ?thesis
      using Cons.IH [of "send_to w st a"] Cons.prems(1,4) by simp
  qed
qed

text \<open>
  Claim C4. A host whose subscribers all have a connected transport calls
  \<open>sendMessage\<close> with no target list: the number of \<open>send\<close> calls grows by the number
  of subscribers, each subscriber's transport gets exactly the one message frame,
  and exactly one message callback fires locally. Nothing is assumed about which of
  the \<open>send\<close> calls throw.
\<close>

theorem broadcast_fan_out:
  assumes "isHost st" and "distinct (map fst (subscribers st))"
    and "all_connected st (map fst (subscribers st))"
  shows "send_count (sendMessage st body None msg_id now)
           = send_count st + length (subscribers st) \<and>
    (\<forall>sid \<in> set (map fst (subscribers st)). \<forall>p. map_of (peers st) sid = Some p \<longrightarrow>
       map_of (peers (sendMessage st body None msg_id now)) sid =
         Some (p\<lparr>send_calls :=
                   send_calls p @ [message_frame (ChatMessage st msg_id body now)]\<rparr>)) \<and>
    chat_callbacks (sendMessage st body None msg_id now) =
      chat_callbacks st @ [OnMessage (to_jsval (ChatMessage st msg_id body now))]"
proof -
  let ?ts = "map fst (subscribers st)"
  let ?w = "message_frame (ChatMessage st msg_id body now)"
  have peers': "peers (sendMessage st body None msg_id now) = peers (foldl (send_to ?w) st ?ts)"
    using assms(1) by (simp add: sendMessage_def chat_fire_def targets_of_def)
  have count: "send_count (sendMessage st body None msg_id now)
               = send_count st + length (subscribers st)"
    using foldl_send_to_count [OF assms(3), of ?w] peers' by (simp add: send_count_def)
  have each: "\<forall>sid \<in> set ?ts. \<forall>p. map_of (peers st) sid = Some p \<longrightarrow>
       map_of (peers (sendMessage st body None msg_id now)) sid =
         Some (p\<lparr>send_calls := send_calls p @ [?w]\<rparr>)"
  proof (intro ballI allI impI)
    fix sid p
    assume sid: "sid \<in> set ?ts" and p: "map_of (peers st) sid = Some p"
    then have "connected p"
      using assms(3) by (auto simp: all_connected_def)
    then show "map_of (peers (sendMessage st body None msg_id now)) sid
               = Some (p\<lparr>send_calls := send_calls p @ [?w]\<rparr>)"
      using foldl_send_to_peer [OF assms(2) sid p] peers' by simp
  qed
  have echo: "chat_callbacks (sendMessage st body None msg_id now) =
      chat_callbacks st @ [OnMessage (to_jsval (ChatMessage st msg_id body now))]"
    using assms(1) by (simp add: sendMessage_def chat_fire_def foldl_send_to_unchanged)
  show ?thesis
    using count each echo by blast
qed

text \<open>A host with two subscribers, the second of which has a transport whose \<open>send\<close> throws.\<close>

definition member :: "string \<Rightarrow> string \<Rightarrow> Subscriber" where
  "member sid name = \<lparr>sub_id = sid, sub_name = name, sub_connected = True, joinedAt = 0\<rparr>"

definition host_of_two :: chat_state where
  "host_of_two = (ChatWebRTCManager True [])
     \<lparr>peers := [(''s1'', link), (''s2'', link\<lparr>send_throws := True\<rparr>)],
      subscribers := [(''s1'', member ''s1'' ''Ann''), (''s2'', member ''s2'' ''Bob'')]\<rparr>"

theorem broadcast_fan_out_witness:
  "isHost host_of_two \<and> distinct (map fst (subscribers host_of_two)) \<and>
   all_connected host_of_two (map fst (subscribers host_of_two)) \<and>
   send_count host_of_two = 0 \<and>
   send_count (sendMessage host_of_two ''hello'' None ''m1'' 7) = 2 \<and>
   map_of (peers (sendMessage host_of_two ''hello'' None ''m1'' 7)) ''s2'' =
     Some (link\<lparr>send_throws := True,
                send_calls := [message_frame (ChatMessage host_of_two ''m1'' ''hello'' 7)]\<rparr>) \<and>
   chat_callbacks (sendMessage host_of_two ''hello'' None ''m1'' 7) =
     [OnMessage (to_jsval (ChatMessage host_of_two ''m1'' ''hello'' 7))]"
proof -
  have h: "isHost host_of_two"
    by (simp add: host_of_two_def ChatWebRTCManager_def)
  have d: "distinct (map fst (subscribers host_of_two))"
    by (simp add: host_of_two_def)
  have c: "all_connected host_of_two (map fst (subscribers host_of_two))"
    by (simp add: all_connected_def host_of_two_def link_def)
  have p: "map_of (peers host_of_two) ''s2'' = Some (link\<lparr>send_throws := True\<rparr>)"
    by (simp add: host_of_two_def)
  have s: "''s2'' \<in> set (map fst (subscribers host_of_two))"
    by (simp add: host_of_two_def)
  have z: "send_count host_of_two = 0"
    by (simp add: send_count_def host_of_two_def link_def)
  have l: "length (subscribers host_of_two) = 2" "chat_callbacks host_of_two = []"
    by (simp_all add: host_of_two_def ChatWebRTCManager_def)
  note fan = broadcast_fan_out [OF h d c, of "''hello''" "''m1''" 7]
  have count: "send_count (sendMessage host_of_two ''hello'' None ''m1'' 7) = 2"
    using fan z l by simp
  have second: "map_of (peers (sendMessage host_of_two ''hello'' None ''m1'' 7)) ''s2'' =
     Some (link\<lparr>send_throws := True,
                send_calls := [message_frame (ChatMessage host_of_two ''m1'' ''hello'' 7)]\<rparr>)"
    using fan [THEN conjunct2, THEN conjunct1, rule_format, OF s p] by (simp add: link_def)
  have echo: "chat_callbacks (sendMessage host_of_two ''hello'' None ''m1'' 7) =
     [OnMessage (to_jsval (ChatMessage host_of_two ''m1'' ''hello'' 7))]"
    using fan l by simp
  show ?thesis
    using h d c z count second echo by blast
qed

subsection \<open>Processing an answer\<close>

definition joined :: "ChatSignalData \<Rightarrow> nat \<Rightarrow> Subscriber" where
  "joined a now = \<lparr>sub_id = the (csd_subscriberId a), sub_name = the (csd_subscriberName a),
                   sub_connected = True, joinedAt = now\<rparr>"

text \<open>
  Claim C3, as stated, fails: an answer without a subscriber name fails with
  \<open>Invalid answer data\<close>, checked before the transport is looked up, also when no
  transport is stored under its subscriber id.
\<close>

definition nameless_answer :: ChatSignalData where
  "nameless_answer = \<lparr>csd_type = ''answer'', csd_signal = ''sdp'',
     csd_subscriberId = Some ''abc'', csd_subscriberName = None\<rparr>"

theorem processAnswer_counterexample:
  "map_of (peers (ChatWebRTCManager True [])) (the (csd_subscriberId nameless_answer)) = None \<and>
   fst (processAnswer (ChatWebRTCManager True []) nameless_answer 0 ''m1'' 0)
     = Some InvalidAnswerData"
  by (simp add: processAnswer_def ChatWebRTCManager_def nameless_answer_def)

text \<open>
  Claim C3, amended. On a host, for an answer carrying a non-empty subscriber id and
  a non-empty subscriber name, \<open>processAnswer\<close> fails with \<open>Peer not found for
  subscriber\<close> exactly when no transport is stored under the id. When one is stored
  and accepts the signal, the call succeeds: the transport is signalled with the
  answer's descriptor, the subscriber is recorded under the id as connected and
  joined at the current time, one \<open>subscriber joined\<close> callback fires, followed by
  the local message callback of the welcome text, and no transport of another
  subscriber is touched.
\<close>

theorem processAnswer_postcondition:
  assumes "isHost st" and "present (csd_subscriberId a)" and "present (csd_subscriberName a)"
  shows "(fst (processAnswer st a now msg_id msg_now) = Some PeerNotFoundForSubscriber
            \<longleftrightarrow> map_of (peers st) (the (csd_subscriberId a)) = None) \<and>
    (\<forall>p. map_of (peers st) (the (csd_subscriberId a)) = Some p \<longrightarrow> \<not> signal_throws p \<longrightarrow>
       (\<exists>st'. processAnswer st a now msg_id msg_now = (None, st') \<and>
          subscribers st' =
            AList.update (the (csd_subscriberId a)) (joined a now) (subscribers st) \<and>
          chat_callbacks st' = chat_callbacks st @
            [OnSubscriberJoined (joined a now),
             OnMessage (to_jsval (ChatMessage st msg_id ''Welcome to the chat!'' msg_now))] \<and>
          (\<exists>p'. map_of (peers st') (the (csd_subscriberId a)) = Some p' \<and>
                signal_calls p' = signal_calls p @ [csd_signal a]) \<and>
          (\<forall>k. k \<noteq> the (csd_subscriberId a) \<longrightarrow> map_of (peers st') k = map_of (peers st) k)))"
proof -
  let ?id = "the (csd_subscriberId a)"
  have first: "fst (processAnswer st a now msg_id msg_now) = Some PeerNotFoundForSubscriber
            \<longleftrightarrow> map_of (peers st) ?id = None"
    using assms
    by (auto simp: processAnswer_def peer_signal_def split: option.splits prod.splits)
  have second: "\<exists>st'. processAnswer st a now msg_id msg_now = (None, st') \<and>
          subscribers st' = AList.update ?id (joined a now) (subscribers st) \<and>
          chat_callbacks st' = chat_callbacks st @
            [OnSubscriberJoined (joined a now),
             OnMessage (to_jsval (ChatMessage st msg_id ''Welcome to the chat!'' msg_now))] \<and>
          (\<exists>p'. map_of (peers st') ?id = Some p' \<and>
                signal_calls p' = signal_calls p @ [csd_signal a]) \<and>
          (\<forall>k. k \<noteq> ?id \<longrightarrow> map_of (peers st') k = map_of (peers st) k)"
    if p: "map_of (peers st) ?id = Some p" and ok: "\<not> signal_throws p" for p
  proof -
    let ?p1 = "p\<lparr>signal_calls := signal_calls p @ [csd_signal a]\<rparr>"
    let ?st1 = "chat_fire (OnSubscriberJoined (joined a now))
                  (st\<lparr>peers := AList.update ?id ?p1 (peers st),
                      subscribers := AList.update ?id (joined a now) (subscribers st)\<rparr>)"
    let ?w = "message_frame (ChatMessage st msg_id ''Welcome to the chat!'' msg_now)"
    let ?st' = "sendMessage ?st1 ''Welcome to the chat!'' (Some [?id]) msg_id msg_now"
    have run: "processAnswer st a now msg_id msg_now = (None, ?st')"
      using assms p ok by (simp add: processAnswer_def peer_signal_def joined_def)
    have h1: "isHost ?st1"
      using assms(1) by (simp add: chat_fire_def)
    have msg: "ChatMessage ?st1 msg_id ''Welcome to the chat!'' msg_now
               = ChatMessage st msg_id ''Welcome to the chat!'' msg_now"
      using assms(1) by (simp add: ChatMessage_def chat_fire_def)
    have subs: "subscribers ?st' = AList.update ?id (joined a now) (subscribers st)"
      using h1 by (simp add: sendMessage_def chat_fire_def targets_of_def send_to_unchanged)
    have cbs: "chat_callbacks ?st' = chat_callbacks st @
            [OnSubscriberJoined (joined a now),
             OnMessage (to_jsval (ChatMessage st msg_id ''Welcome to the chat!'' msg_now))]"
      using h1 msg by (simp add: sendMessage_def chat_fire_def targets_of_def send_to_unchanged)
    have peers': "peers ?st' = peers (send_to ?w ?st1 ?id)"
      using h1 msg by (simp add: sendMessage_def chat_fire_def targets_of_def)
    have mine: "\<exists>p'. map_of (peers ?st') ?id = Some p' \<and>
                signal_calls p' = signal_calls p @ [csd_signal a]"
      unfolding peers' by (simp add: send_to_peer chat_fire_def update_conv')
    have others: "\<forall>k. k \<noteq> ?id \<longrightarrow> map_of (peers ?st') k = map_of (peers st) k"
      unfolding peers' by (simp add: send_to_peer chat_fire_def update_conv')
    show ?thesis
      using run subs cbs mine others by blast
  qed
  show ?thesis
    using first second by blast
qed

text \<open>A host that has created one offer, and the answer to it.\<close>

definition host_with_offer :: chat_state where
  "host_with_offer = snd (createOffer (ChatWebRTCManager True []) ''abc'')"

definition answer_of_Ann :: ChatSignalData where
  "answer_of_Ann = \<lparr>csd_type = ''answer'', csd_signal = ''sdp'',
     csd_subscriberId = Some ''abc'', csd_subscriberName = Some ''Ann''\<rparr>"

lemma host_with_offer_eq:
  "host_with_offer = (ChatWebRTCManager True [])\<lparr>peers := [(''abc'', new_Peer)]\<rparr>"
  by (simp add: host_with_offer_def createOffer_def ChatWebRTCManager_def)

theorem processAnswer_postcondition_witness:
  "isHost host_with_offer \<and> present (csd_subscriberId answer_of_Ann) \<and>
   present (csd_subscriberName answer_of_Ann) \<and>
   map_of (peers host_with_offer) ''abc'' = Some new_Peer \<and> \<not> signal_throws new_Peer \<and>
   fst (processAnswer host_with_offer answer_of_Ann 5 ''m1'' 6) = None \<and>
   subscribers (snd (processAnswer host_with_offer answer_of_Ann 5 ''m1'' 6)) =
     [(''abc'', \<lparr>sub_id = ''abc'', sub_name = ''Ann'', sub_connected = True, joinedAt = 5\<rparr>)] \<and>
   chat_callbacks (snd (processAnswer host_with_offer answer_of_Ann 5 ''m1'' 6)) =
     [OnSubscriberJoined
        \<lparr>sub_id = ''abc'', sub_name = ''Ann'', sub_connected = True, joinedAt = 5\<rparr>,
      OnMessage (to_jsval (ChatMessage host_with_offer ''m1'' ''Welcome to the chat!'' 6))]"
proof -
  have h: "isHost host_with_offer"
    by (simp add: host_with_offer_eq ChatWebRTCManager_def)
  have i: "present (csd_subscriberId answer_of_Ann)"
    and n: "present (csd_subscriberName answer_of_Ann)"
    by (simp_all add: answer_of_Ann_def)
  have p: "map_of (peers host_with_offer) ''abc'' = Some new_Peer"
    by (simp add: host_with_offer_eq)
  have t: "\<not> signal_throws new_Peer"
    by (simp add: new_Peer_def)
  have id: "the (csd_subscriberId answer_of_Ann) = ''abc''"
    by (simp add: answer_of_Ann_def)
  have e: "subscribers host_with_offer = []" "chat_callbacks host_with_offer = []"
    by (simp_all add: host_with_offer_eq ChatWebRTCManager_def)
  from processAnswer_postcondition [OF h i n, of 5 "''m1''" 6]
  obtain st' where "processAnswer host_with_offer answer_of_Ann 5 ''m1'' 6 = (None, st')"
    and "subscribers st' = AList.update ''abc'' (joined answer_of_Ann 5) []"
    and "chat_callbacks st' =
            [OnSubscriberJoined (joined answer_of_Ann 5),
             OnMessage (to_jsval (ChatMessage host_with_offer ''m1'' ''Welcome to the chat!'' 6))]"
    using p t id e by auto
  then show ?thesis
    using h i n p t by (simp add: joined_def answer_of_Ann_def)
qed

text \<open>
  The welcome message is sent over the transport only when the transport is already
  connected. The transport of an offer that has just been answered is not: the
  welcome then reaches the local message callback alone.
\<close>

lemma welcome_not_sent_to_pending_transport:
  "map_option send_calls
     (map_of (peers (snd (processAnswer host_with_offer answer_of_Ann 5 ''m1'' 6))) ''abc'')
   = Some []"
  by (simp add: host_with_offer_eq processAnswer_def answer_of_Ann_def ChatWebRTCManager_def
        new_Peer_def peer_signal_def sendMessage_def targets_of_def send_to_def chat_fire_def)

subsection \<open>The connection status of a host\<close>

text \<open>
  Claim C9. On a host, \<open>isConnected\<close> is true exactly when the map of transports is
  not empty. It is true right after \<open>createOffer\<close>, which stores a transport that is
  not connected, and it does not depend on the \<open>connected\<close> flag of any transport:
  setting the flags in any way leaves it as it is.
\<close>

theorem isConnected_host:
  assumes "isHost st"
  shows "(chat_isConnected st \<longleftrightarrow> peers st \<noteq> []) \<and>
    (\<exists>st'. createOffer st sid = (None, st') \<and> chat_isConnected st' \<and>
       map_of (peers st') sid = Some new_Peer \<and> \<not> connected new_Peer) \<and>
    chat_isConnected (st\<lparr>peers := map (\<lambda>(k, p). (k, p\<lparr>connected := c k p\<rparr>)) (peers st)\<rparr>)
      = chat_isConnected st"
proof -
  have "AList.update sid new_Peer (peers st) \<noteq> []"
    by (cases "peers st") auto
  then show ?thesis
    using assms by (simp add: chat_isConnected_def createOffer_def update_conv' new_Peer_def)
qed

theorem isConnected_host_witness:
  "isHost (ChatWebRTCManager True []) \<and> \<not> chat_isConnected (ChatWebRTCManager True []) \<and>
   chat_isConnected host_with_offer \<and>
   map_of (peers host_with_offer) ''abc'' = Some new_Peer \<and> \<not> connected new_Peer"
proof -
  have h: "isHost (ChatWebRTCManager True [])"
    by (simp add: ChatWebRTCManager_def)
  have e: "peers (ChatWebRTCManager True []) = []"
    by (simp add: ChatWebRTCManager_def)
  show ?thesis
    using isConnected_host [OF h, of "''abc''"] h e by (auto simp: host_with_offer_def)
qed

subsection \<open>Two overlapping transfers\<close>

lemmas chat_recv_eval = chat_handleReceivedData_def chat_try_block_def chat_dispatch_def
  handleFileStart_def handleFileChunkMeta_def handleFileComplete_def chat_handleBinaryChunk_def
  chat_fire_def chat_say_def ChatWebRTCManager_def js_less_nat_def collect.simps field_def
  percentage_def

text \<open>
  Two files of 16385 bytes, so of two chunks each, and the frames of their two
  transfers as two overlapping \<open>sendFile\<close> calls of a host emit them to one
  subscriber: both announcements, then the chunks in turn, each behind its control
  frame, then both completions.
\<close>

definition file_a :: File where
  "file_a = \<lparr>fname = ''a.bin'', ftype = ''application/octet-stream'',
              content = replicate 16384 (CHR ''a'') @ ''A''\<rparr>"

definition file_b :: File where
  "file_b = \<lparr>fname = ''b.bin'', ftype = ''application/octet-stream'',
              content = replicate 16384 (CHR ''b'') @ ''B''\<rparr>"

definition interleaved :: "wire list" where
  "interleaved =
     [chat_fileStart ''fa'' file_a 2, chat_fileStart ''fb'' file_b 2,
      chat_fileChunk ''fa'' 0 2, Binary (chunk_of file_a 0),
      chat_fileChunk ''fb'' 0 2, Binary (chunk_of file_b 0),
      chat_fileChunk ''fa'' 1 2, Binary (chunk_of file_a 1),
      chat_fileChunk ''fb'' 1 2, Binary (chunk_of file_b 1),
      chat_fileComplete ''fa'', chat_fileComplete ''fb'']"

definition chat_callbacks_of :: "chat_state option \<Rightarrow> chat_callback list" where
  "chat_callbacks_of r = (case r of None \<Rightarrow> [] | Some st \<Rightarrow> chat_callbacks st)"

text \<open>The assembled files a list of callbacks delivers: name and content.\<close>

definition file_messages :: "chat_callback list \<Rightarrow> (jsval \<times> bytes) list" where
  "file_messages cs = concat (map (\<lambda>c. case c of
       OnFileMessage m \<Rightarrow>
         (case fm_url m of Some (ObjectURL t b) \<Rightarrow> [(fm_name m, b)] | None \<Rightarrow> [])
     | _ \<Rightarrow> []) cs)"

definition started :: "string \<Rightarrow> string \<Rightarrow> jsval" where
  "started fileId name = JObj [(''type'', JStr ''fileStart''),
     (''data'', JObj [(''fileId'', JStr fileId), (''fileName'', JStr name),
        (''fileSize'', JNum (Fin 16385 0)), (''fileType'', JStr ''application/octet-stream''),
        (''totalChunks'', JNum (Fin 2 0))])]"

definition announced :: "string \<Rightarrow> int \<Rightarrow> jsval" where
  "announced fileId i = JObj [(''type'', JStr ''fileChunk''),
     (''data'', JObj [(''fileId'', JStr fileId), (''chunkIndex'', JNum (Fin i 0)),
        (''totalChunks'', JNum (Fin 2 0))])]"

definition completed :: "string \<Rightarrow> jsval" where
  "completed fileId = JObj [(''type'', JStr ''fileComplete''),
     (''data'', JObj [(''fileId'', JStr fileId)])]"

lemma file_ab_sizes: "fsize file_a = 16385" "fsize file_b = 16385"
  by (simp_all add: fsize_def file_a_def file_b_def)

lemma file_ab_names:
  "fname file_a = ''a.bin''" "ftype file_a = ''application/octet-stream''"
  "fname file_b = ''b.bin''" "ftype file_b = ''application/octet-stream''"
  by (simp_all add: file_a_def file_b_def)

lemma file_ab_counts:
  "Math_ceil_div (fsize file_a) CHUNK_SIZE = 2" "Math_ceil_div (fsize file_b) CHUNK_SIZE = 2"
  by (simp_all add: file_ab_sizes Math_ceil_div_def CHUNK_SIZE_def)

lemma chunks_of_file_a:
  "chunk_of file_a 0 = replicate 16384 (CHR ''a'')" "chunk_of file_a 1 = ''A''"
  by (simp_all add: chunk_of_def slice_def fsize_def file_a_def CHUNK_SIZE_def)

lemma chunks_of_file_b:
  "chunk_of file_b 0 = replicate 16384 (CHR ''b'')" "chunk_of file_b 1 = ''B''"
  by (simp_all add: chunk_of_def slice_def fsize_def file_b_def CHUNK_SIZE_def)

lemma chunks_not_json [simp]:
  "JSON_parse (replicate 16384 (CHR ''a'')) = None"
  "JSON_parse (replicate 16384 (CHR ''b'')) = None"
  "JSON_parse ''A'' = None" "JSON_parse ''B'' = None"
proof -
  have r: "replicate 16384 c = c # replicate 16383 c" for c :: char
    by (simp add: replicate_Suc [symmetric] del: replicate_Suc)
  show "JSON_parse (replicate 16384 (CHR ''a'')) = None"
    unfolding r by (simp add: json_eval)
  show "JSON_parse (replicate 16384 (CHR ''b'')) = None"
    unfolding r by (simp add: json_eval)
  show "JSON_parse ''A'' = None" "JSON_parse ''B'' = None"
    by (simp_all add: json_eval)
qed

lemma parse_control:
  "JSON_parse (wire_bytes (chat_fileStart ''fa'' file_a 2)) = Some (started ''fa'' ''a.bin'')"
  "JSON_parse (wire_bytes (chat_fileStart ''fb'' file_b 2)) = Some (started ''fb'' ''b.bin'')"
  "JSON_parse (wire_bytes (chat_fileChunk ''fa'' 0 2)) = Some (announced ''fa'' 0)"
  "JSON_parse (wire_bytes (chat_fileChunk ''fb'' 0 2)) = Some (announced ''fb'' 0)"
  "JSON_parse (wire_bytes (chat_fileChunk ''fa'' (Suc 0) 2)) = Some (announced ''fa'' 1)"
  "JSON_parse (wire_bytes (chat_fileChunk ''fb'' (Suc 0) 2)) = Some (announced ''fb'' 1)"
  "JSON_parse (wire_bytes (chat_fileComplete ''fa'')) = Some (completed ''fa'')"
  "JSON_parse (wire_bytes (chat_fileComplete ''fb'')) = Some (completed ''fb'')"
  by (simp_all add: chat_fileStart_def chat_fileChunk_def chat_fileComplete_def started_def
        announced_def completed_def str_eval json_eval num_eval file_ab_sizes file_ab_names)

text \<open>
  Claim C2 fails on the code. \<open>handleBinaryChunk\<close> gives a binary frame to the first
  transfer, in the order the transfers were announced, that still lacks chunks; the
  \<open>fileId\<close> of the control frame before it is not used. Fed the interleaved frames, the
  subscriber assembles under the name of the first file its first chunk followed by
  the first chunk of the second file, and under the name of the second file the two
  last chunks.
\<close>

theorem interleaved_transfers_mix:
  "file_messages (chat_callbacks_of
      (chat_receive_all (ChatWebRTCManager False ''Ann'') (map wire_bytes interleaved) ''host''))
   = [(JStr ''a.bin'', replicate 16384 (CHR ''a'') @ replicate 16384 (CHR ''b'')),
      (JStr ''b.bin'', ''AB'')]"
  unfolding interleaved_def chunks_of_file_a chunks_of_file_b
  by (simp add: parse_control chat_recv_eval started_def announced_def completed_def num_eval
        chat_callbacks_of_def file_messages_def)

subsection \<open>Teardown\<close>

text \<open>
  \<open>destroy\<close> followed by the \<open>close\<close> event of each transport it destroyed: the
  transport fires it once, and its handler is \<open>on_close\<close>, for a host
  \<open>on_subscriber_close\<close>, for a subscriber \<open>on_host_close\<close>.
\<close>

definition destroy_and_close :: "pair_state \<Rightarrow> pair_state" where
  "destroy_and_close st =
     (on_close ^^ (length (destroyed (destroy st)) - length (destroyed st))) (destroy st)"

definition chat_destroy_and_close :: "chat_state \<Rightarrow> chat_state" where
  "chat_destroy_and_close st =
     (case hostPeer st of None \<Rightarrow> id | Some p \<Rightarrow> on_host_close)
       (foldl on_subscriber_close (chat_destroy st) (map fst (peers st)))"

lemma destroy_and_close_eq:
  "destroy_and_close st =
     (case peer st of None \<Rightarrow> destroy st | Some p \<Rightarrow> fire OnDisconnected (destroy st))"
  by (simp add: destroy_and_close_def destroy_def cleanup_def on_close_def fire_def
        split: option.splits)

lemma removeSubscriber_empty:
  "peers st = [] \<Longrightarrow> subscribers st = [] \<Longrightarrow> removeSubscriber st sid = st"
  by (simp add: removeSubscriber_def forget_subscriber_def)

lemma foldl_close_empty:
  "peers st = [] \<Longrightarrow> subscribers st = [] \<Longrightarrow> foldl on_subscriber_close st sids = st"
  by (induction sids) (simp_all add: on_subscriber_close_def removeSubscriber_empty)

lemma chat_destroy_and_close_eq:
  "chat_destroy_and_close st =
     (case hostPeer st of None \<Rightarrow> chat_destroy st
      | Some p \<Rightarrow> chat_fire OnChatDisconnected (chat_destroy st))"
proof -
  have "foldl on_subscriber_close (chat_destroy st) (map fst (peers st)) = chat_destroy st"
    by (rule foldl_close_empty) (simp_all add: chat_destroy_def)
  then show ?thesis
    by (simp add: chat_destroy_and_close_def on_host_close_def split: option.splits)
qed

lemma destroy_facts:
  "destroy (destroy st) = destroy st \<and>
   peer (destroy st) = None \<and> fileData (destroy st) = JNull \<and>
   receivedChunks (destroy st) = [] \<and> expectedChunkIndex (destroy st) = 0 \<and>
   destroyed (destroy st) = destroyed st @ (case peer st of None \<Rightarrow> [] | Some p \<Rightarrow> [p]) \<and>
   callbacks (destroy st) = callbacks st"
  by (simp add: destroy_def cleanup_def)

lemma destroy_and_close_facts:
  "callbacks (destroy_and_close st) =
     callbacks st @ (case peer st of None \<Rightarrow> [] | Some p \<Rightarrow> [OnDisconnected]) \<and>
   destroy_and_close (destroy_and_close st) = destroy_and_close st"
  by (cases "peer st") (simp_all add: destroy_and_close_eq destroy_def cleanup_def fire_def)

lemma chat_destroy_facts:
  "chat_destroy (chat_destroy cst) = chat_destroy cst \<and>
   peers (chat_destroy cst) = [] \<and> hostPeer (chat_destroy cst) = None \<and>
   subscribers (chat_destroy cst) = [] \<and>
   fileTransfers (chat_destroy cst) = fileTransfers cst \<and>
   chat_destroyed (chat_destroy cst) =
     chat_destroyed cst @ map snd (peers cst)
       @ (case hostPeer cst of None \<Rightarrow> [] | Some p \<Rightarrow> [p]) \<and>
   chat_callbacks (chat_destroy cst) = chat_callbacks cst"
  by (simp add: chat_destroy_def)

lemma chat_destroy_and_close_facts:
  "chat_callbacks (chat_destroy_and_close cst) =
     chat_callbacks cst @ (case hostPeer cst of None \<Rightarrow> [] | Some p \<Rightarrow> [OnChatDisconnected]) \<and>
   chat_destroy_and_close (chat_destroy_and_close cst) = chat_destroy_and_close cst"
  by (cases "hostPeer cst")
     (simp_all add: chat_destroy_and_close_eq chat_destroy_def chat_fire_def)

text \<open>
  Claim C8, as stated, fails for the broadcast manager: its \<open>destroy\<close> does not clear
  the transfers in flight. A subscriber holding an unfinished transfer still holds
  it after \<open>destroy\<close>.
\<close>

theorem chat_destroy_keeps_transfers:
  "fileTransfers (chat_destroy (subscriber_with [(0, ''ab'')]))
     = [(JStr ''f1'', transfer_with [(0, ''ab'')])]"
  by (simp add: chat_destroy_def subscriber_with_def ChatWebRTCManager_def)

text \<open>
  Claim C8, amended. \<open>destroy\<close> is idempotent on both managers and has no failing
  branch. The pair manager's first call destroys the transport, if any, and clears
  the metadata, the received chunks and the chunk index; the broadcast manager's
  first call destroys every transport and clears the transports and the
  subscribers, and leaves \<open>fileTransfers\<close> as it was. A second call changes nothing
  and destroys no transport. \<open>destroy\<close> itself fires no callback; with the \<open>close\<close>
  events of the destroyed transports, one \<open>disconnected\<close> callback fires when the
  pair manager (or a subscriber) had a transport, and calling twice adds none.
\<close>

theorem destroy_idempotent:
  "destroy (destroy st) = destroy st \<and>
   peer (destroy st) = None \<and> fileData (destroy st) = JNull \<and>
   receivedChunks (destroy st) = [] \<and> expectedChunkIndex (destroy st) = 0 \<and>
   destroyed (destroy st) = destroyed st @ (case peer st of None \<Rightarrow> [] | Some p \<Rightarrow> [p]) \<and>
   callbacks (destroy st) = callbacks st \<and>
   callbacks (destroy_and_close st) =
     callbacks st @ (case peer st of None \<Rightarrow> [] | Some p \<Rightarrow> [OnDisconnected]) \<and>
   destroy_and_close (destroy_and_close st) = destroy_and_close st \<and>
   chat_destroy (chat_destroy cst) = chat_destroy cst \<and>
   peers (chat_destroy cst) = [] \<and> hostPeer (chat_destroy cst) = None \<and>
   subscribers (chat_destroy cst) = [] \<and>
   fileTransfers (chat_destroy cst) = fileTransfers cst \<and>
   chat_destroyed (chat_destroy cst) =
     chat_destroyed cst @ map snd (peers cst)
       @ (case hostPeer cst of None \<Rightarrow> [] | Some p \<Rightarrow> [p]) \<and>
   chat_callbacks (chat_destroy cst) = chat_callbacks cst \<and>
   chat_callbacks (chat_destroy_and_close cst) =
     chat_callbacks cst @ (case hostPeer cst of None \<Rightarrow> [] | Some p \<Rightarrow> [OnChatDisconnected]) \<and>
   chat_destroy_and_close (chat_destroy_and_close cst) = chat_destroy_and_close cst"
  using destroy_facts [of st] destroy_and_close_facts [of st]
    chat_destroy_facts [of cst] chat_destroy_and_close_facts [of cst]
  by blast

end
